theory Spec2Isabelle
  imports Complex_Main "HOL-Library.Word"
begin

section \<open>Data model of alvr\_main.cpp\<close>

text \<open>
  Single-precision values (\<^verbatim>\<open>float\<close>) are modelled as reals: the arithmetic of the source is
  kept operation by operation, its rounding is not. Fixed arrays \<^verbatim>\<open>float[3]\<close> are triples,
  the two-element per-eye arrays are pairs (first component \<^verbatim>\<open>kLeft = 0\<close>, second
  \<^verbatim>\<open>kRight = 1\<close>). Pointers to collaborator objects appear only through what the code
  tests of them (null or not).
\<close>

record AlvrQuat =
  qx :: real
  qy :: real
  qz :: real
  qw :: real

type_synonym vec3 = "real \<times> real \<times> real"

record AlvrPose =
  orientation :: AlvrQuat
  position :: vec3

record AlvrFov =
  fov_left :: real
  fov_right :: real
  fov_up :: real
  fov_down :: real

record AlvrViewParams =
  vp_pose :: AlvrPose
  vp_fov :: AlvrFov

record AlvrDeviceMotion =
  device_id :: "64 word"
  dm_pose :: AlvrPose

record AlvrViewInput =
  vi_pose :: AlvrPose
  vi_fov :: AlvrFov
  swapchain_index :: "32 word"

record AlvrStreamConfig =
  view_resolution_width :: "32 word"
  view_resolution_height :: "32 word"
  swapchain_length :: "32 word"
  enable_foveation :: bool
  foveation_center_size_x :: real
  foveation_center_size_y :: real
  foveation_center_shift_x :: real
  foveation_center_shift_y :: real
  foveation_edge_ratio_x :: real
  foveation_edge_ratio_y :: real

text \<open>What the source throws: \<^verbatim>\<open>std::runtime_error\<close>, \<^verbatim>\<open>json::exception\<close>,
  \<^verbatim>\<open>std::system_error\<close> (joining a thread that is not joinable) and the call of
  \<^verbatim>\<open>std::terminate\<close> (assigning to a joinable \<^verbatim>\<open>std::thread\<close>).\<close>

datatype error =
    RuntimeError string
  | JsonException string
  | SystemError
  | Terminate

text \<open>The two texture pairs of the context and the camera texture.\<close>

datatype texset = LobbyTextures | StreamTextures | ArTexture

text \<open>Calls into the collaborators, in the order the code makes them, and the writes to
  \<^verbatim>\<open>CTX.streaming\<close>, the flag the tracking thread reads.

  Modelled from the spec: the macros \<^verbatim>\<open>info\<close>, \<^verbatim>\<open>error\<close> and \<^verbatim>\<open>GL\<close> of
  \<^verbatim>\<open>utils.h\<close>, a header that is not among the sources. \<^verbatim>\<open>info\<close> and \<^verbatim>\<open>error\<close>
  write one diagnostic line each (the log of the specification), kept here with the
  constant part of the message; \<^verbatim>\<open>GL\<close> makes the wrapped call.\<close>

datatype effect =
    LogInfo string
  | LogError string
  | PauseOpenGl
  | GlDeleteTextures texset
  | GlGenTextures texset
  | GlTexImage2D texset int int
  | ResumeOpenGl int int
  | StartStreamOpenGl AlvrStreamConfig
  | WriteStreaming bool
  | SpawnInputThread
  | JoinInputThread
  | SendTracking "64 word" "AlvrViewParams \<times> AlvrViewParams" AlvrDeviceMotion
  | SleepUntil "64 word"
  | UpdateHudMessageOpenGl string
  | AlvrInitialize "32 word" "32 word" real
  | ArSetDisplayGeometry int int int
  | RenderStreamOpenGl
  | ReportSubmit
  | RenderLobbyOpenGl "AlvrViewInput \<times> AlvrViewInput"
  | RenderEyeToDisplay texset

datatype thread_state = NotAThread | Joinable

record NativeContext =
  arcoreEnabled :: bool
  arSession :: "nat option"
  lastOrientation :: AlvrQuat
  lastPosition :: vec3
  floorAltitude :: real
  currentPressure :: real
  screenWidth :: int
  screenHeight :: int
  screenRotation :: int
  renderingParamsChanged :: bool
  glContextRecreated :: bool
  running :: bool
  streaming :: bool
  inputThread :: thread_state
  eyeOffsets :: "real \<times> real"
  fovArr :: "AlvrFov \<times> AlvrFov"
  viewParams :: "AlvrViewParams \<times> AlvrViewParams"
  deviceMotion :: AlvrDeviceMotion

text \<open>The process state: the context \<^verbatim>\<open>CTX\<close>, the other globals of the file, and the
  trace of collaborator calls made so far.\<close>

record Process = NativeContext +
  HEAD_ID :: "64 word"
  useARCoreOrientation :: bool
  useBarometerAltitudeTracking :: bool
  tmp_minPressure :: real
  tmp_maxPressure :: real
  trace :: "effect list"

definition FLOOR_HEIGHT :: real where
  "FLOOR_HEIGHT = 1.5"

definition VSYNC_QUEUE_INTERVAL_NS :: "64 word" where
  "VSYNC_QUEUE_INTERVAL_NS = 50000000"

definition SEA_LEVEL_PRESSURE :: real where
  "SEA_LEVEL_PRESSURE = 1013.25"

definition zeroQuat :: AlvrQuat where
  "zeroQuat = \<lparr> qx = 0, qy = 0, qz = 0, qw = 0 \<rparr>"

definition zeroPose :: AlvrPose where
  "zeroPose = \<lparr> orientation = zeroQuat, position = (0, 0, 0) \<rparr>"

definition zeroFov :: AlvrFov where
  "zeroFov = \<lparr> fov_left = 0, fov_right = 0, fov_up = 0, fov_down = 0 \<rparr>"

definition zeroViewParams :: AlvrViewParams where
  "zeroViewParams = \<lparr> vp_pose = zeroPose, vp_fov = zeroFov \<rparr>"

definition zeroViewInput :: AlvrViewInput where
  "zeroViewInput = \<lparr> vi_pose = zeroPose, vi_fov = zeroFov, swapchain_index = 0 \<rparr>"

text \<open>The initial value of \<^verbatim>\<open>CTX\<close> and of the globals, as their initialisers give it.\<close>

definition initial_process :: "64 word \<Rightarrow> Process" where
  "initial_process head_id =
     \<lparr> arcoreEnabled = False, arSession = None,
       lastOrientation = zeroQuat, lastPosition = (0, 0, 0),
       floorAltitude = 0, currentPressure = 0,
       screenWidth = 0, screenHeight = 0, screenRotation = 0,
       renderingParamsChanged = True, glContextRecreated = False,
       running = False, streaming = False, inputThread = NotAThread,
       eyeOffsets = (0, 0), fovArr = (zeroFov, zeroFov),
       viewParams = (zeroViewParams, zeroViewParams),
       deviceMotion = \<lparr> device_id = 0, dm_pose = zeroPose \<rparr>,
       HEAD_ID = head_id,
       useARCoreOrientation = False, useBarometerAltitudeTracking = True,
       tmp_minPressure = 0, tmp_maxPressure = 0, trace = [] \<rparr>"

definition emit :: "effect \<Rightarrow> Process \<Rightarrow> Process" where
  "emit e s = s\<lparr> trace := trace s @ [e] \<rparr>"

section \<open>Quaternion helpers\<close>

definition inverseQuat :: "AlvrQuat \<Rightarrow> AlvrQuat" where
  "inverseQuat q = \<lparr> qx = - qx q, qy = - qy q, qz = - qz q, qw = qw q \<rparr>"

fun cross :: "vec3 \<Rightarrow> vec3 \<Rightarrow> vec3" where
  "cross (a0, a1, a2) (b0, b1, b2) =
     (a1 * b2 - a2 * b1, a2 * b0 - a0 * b2, a0 * b1 - a1 * b0)"

definition quatVecMultiply :: "AlvrQuat \<Rightarrow> vec3 \<Rightarrow> vec3" where
  "quatVecMultiply q v =
     (let r = (qx q, qy q, qz q);
          rv = cross r v;
          rrv = cross r rv
      in case (v, rv, rrv) of ((v0, v1, v2), (rv0, rv1, rv2), (rrv0, rrv1, rrv2)) \<Rightarrow>
           (v0 + 2 * (qw q * rv0 + rrv0),
            v1 + 2 * (qw q * rv1 + rrv1),
            v2 + 2 * (qw q * rv2 + rrv2)))"

definition offsetPosWithQuat :: "AlvrQuat \<Rightarrow> vec3 \<Rightarrow> vec3 \<Rightarrow> vec3" where
  "offsetPosWithQuat q offset outPos =
     (case (quatVecMultiply q offset, outPos) of
        ((rotatedOffset0, rotatedOffset1, rotatedOffset2), (outPos0, outPos1, outPos2)) \<Rightarrow>
          (outPos0 - rotatedOffset0,
           outPos1 - (rotatedOffset1 - FLOOR_HEIGHT),
           outPos2 - rotatedOffset2))"

section \<open>Barometer-based altitude tracking\<close>

definition pressureToAltitude :: "real \<Rightarrow> real \<Rightarrow> real" where
  "pressureToAltitude p0 p =
     (let coef = 1 / 5.255 in 44330 * (1 - (p / p0) powr coef))"

definition getAltitudeFromBarometer :: "Process \<Rightarrow> real" where
  "getAltitudeFromBarometer s =
     (let floorAlt = floorAltitude s;
          currentAltitude = pressureToAltitude SEA_LEVEL_PRESSURE (currentPressure s)
      in currentAltitude - floorAlt)"

record ASensorEvent =
  ev_type :: int
  ev_pressure :: real

definition ASENSOR_TYPE_PRESSURE :: int where
  "ASENSOR_TYPE_PRESSURE = 6"

text \<open>The body of the \<^verbatim>\<open>while\<close> loop of \<^verbatim>\<open>onSensorChanged\<close> for one event taken from the
  queue.\<close>

definition onSensorEvent :: "ASensorEvent \<Rightarrow> Process \<Rightarrow> Process" where
  "onSensorEvent event s =
     (if ev_type event \<noteq> ASENSOR_TYPE_PRESSURE then s
      else
        let s1 = (if floorAltitude s = 0
                  then s\<lparr> floorAltitude :=
                            pressureToAltitude SEA_LEVEL_PRESSURE (ev_pressure event) \<rparr>
                  else s);
            s2 = s1\<lparr> currentPressure := ev_pressure event \<rparr>;
            s3 = (if ev_pressure event < tmp_minPressure s2 \<or> tmp_minPressure s2 = 0
                  then s2\<lparr> tmp_minPressure := ev_pressure event \<rparr> else s2);
            s4 = (if ev_pressure event > tmp_maxPressure s3
                  then s3\<lparr> tmp_maxPressure := ev_pressure event \<rparr> else s3)
        in s4)"

text \<open>\<^verbatim>\<open>onSensorChanged\<close>: the loop runs while the queue yields an event; the queue's
  content at the callback is the list.\<close>

fun onSensorChanged :: "ASensorEvent list \<Rightarrow> Process \<Rightarrow> int \<times> Process" where
  "onSensorChanged [] s = (1, s)"
| "onSensorChanged (event # queue) s = onSensorChanged queue (onSensorEvent event s)"

definition pressureSample :: "real \<Rightarrow> ASensorEvent" where
  "pressureSample p = \<lparr> ev_type = ASENSOR_TYPE_PRESSURE, ev_pressure = p \<rparr>"

section \<open>Pose fusion: \<^verbatim>\<open>getPose\<close>\<close>

datatype ArTrackingState =
    AR_TRACKING_STATE_TRACKING
  | AR_TRACKING_STATE_PAUSED
  | AR_TRACKING_STATE_STOPPED

definition AR_SUCCESS :: int where
  "AR_SUCCESS = 0"

text \<open>What the collaborators answer during one call of \<^verbatim>\<open>getPose\<close>: the head tracker's
  quaternion \<^verbatim>\<open>q[4]\<close> for the requested time, whether \<^verbatim>\<open>eglGetCurrentContext()\<close> yields a
  context, the status of \<^verbatim>\<open>ArSession_update\<close>, the camera's tracking state and the raw
  camera pose \<^verbatim>\<open>{qx, qy, qz, qw, tx, ty, tz}\<close> (seven values).\<close>

record PoseSources =
  headTrackerPose :: "int \<Rightarrow> real \<times> real \<times> real \<times> real"
  eglCurrentContext :: bool
  arSessionUpdate :: int
  arTrackingState :: ArTrackingState
  arRawPose :: "real list"

text \<open>The code after the label \<^verbatim>\<open>out\<close>.\<close>

definition getPose_out :: "bool \<Rightarrow> AlvrPose \<Rightarrow> Process \<Rightarrow> AlvrPose" where
  "getPose_out returnLastPosition pose s =
     (if returnLastPosition
      then pose\<lparr> orientation := lastOrientation s, position := lastPosition s \<rparr>
      else pose)"

text \<open>The first block of \<^verbatim>\<open>getPose\<close>: the head tracker's orientation, inverted, goes into
  the pose and into the orientation cache.\<close>

definition getPose_headTracker ::
  "PoseSources \<Rightarrow> 64 word \<Rightarrow> AlvrPose \<Rightarrow> Process \<Rightarrow> AlvrPose \<times> Process" where
  "getPose_headTracker src timestampNs pose s =
     (if \<not> arcoreEnabled s \<or> (arcoreEnabled s \<and> \<not> useARCoreOrientation s)
      then
        (case headTrackerPose src (sint timestampNs) of (q0, q1, q2, q3) \<Rightarrow>
           let inverseOrientation = \<lparr> qx = q0, qy = q1, qz = q2, qw = q3 \<rparr>;
               pose' = pose\<lparr> orientation := inverseQuat inverseOrientation \<rparr>
           in (pose', s\<lparr> lastOrientation := orientation pose' \<rparr>))
      else (pose, s))"

text \<open>The end of the second block, reached when the camera tracks: position from the raw
  camera pose into the pose and the position cache, the camera's orientation if it is
  preferred, then the barometer's altitude over the vertical component of the pose.\<close>

definition getPose_camera :: "PoseSources \<Rightarrow> AlvrPose \<Rightarrow> Process \<Rightarrow> AlvrPose \<times> Process" where
  "getPose_camera src pose s =
     (let raw = arRawPose src;
          camPos = (raw ! 4, raw ! 5, raw ! 6);
          pose2 = pose\<lparr> position := camPos \<rparr>;
          s2 = s\<lparr> lastPosition := camPos \<rparr>;
          (pose3, s3) =
            (if useARCoreOrientation s2
             then
               (let pose' = pose2\<lparr> orientation :=
                              \<lparr> qx = raw ! 0, qy = raw ! 1, qz = raw ! 2, qw = raw ! 3 \<rparr> \<rparr>
                in (pose', s2\<lparr> lastOrientation := orientation pose' \<rparr>))
             else (pose2, s2));
          pose4 =
            (if useBarometerAltitudeTracking s3
             then (case position pose3 of (p0, p1, p2) \<Rightarrow>
                     pose3\<lparr> position := (p0, getAltitudeFromBarometer s3, p2) \<rparr>)
             else pose3)
      in (pose4, s3))"

definition getPose ::
  "PoseSources \<Rightarrow> 64 word \<Rightarrow> Process \<Rightarrow> (error + AlvrPose) \<times> Process" where
  "getPose src timestampNs s0 =
     (case getPose_headTracker src timestampNs zeroPose s0 of (pose1, s1) \<Rightarrow>
        if arcoreEnabled s1 \<and> arSession s1 \<noteq> None then
          if \<not> eglCurrentContext src then
            (Inl (RuntimeError ''Failed to get EGL context in getPose.''), s1)
          else if arSessionUpdate src \<noteq> AR_SUCCESS then
            (let s2 = emit (LogError ''getPose: ArSession_update failed, using last position'') s1
             in (Inr (getPose_out True pose1 s2), s2))
          else if arTrackingState src \<noteq> AR_TRACKING_STATE_TRACKING then
            (let s2 = emit (LogError ''getPose: Camera is not tracking, using last position'') s1
             in (Inr (getPose_out True pose1 s2), s2))
          else
            (case getPose_camera src pose1 s1 of (pose4, s3) \<Rightarrow>
               (Inr (getPose_out False pose4 s3), s3))
        else (Inr (getPose_out False pose1 s1), s1))"

text \<open>Calling \<^verbatim>\<open>getPose\<close> repeatedly, once per element of the list; an exception ends the
  run. The poses returned are collected in call order.\<close>

fun getPose_calls ::
  "(PoseSources \<times> 64 word) list \<Rightarrow> Process \<Rightarrow> (error + AlvrPose list) \<times> Process" where
  "getPose_calls [] s = (Inr [], s)"
| "getPose_calls ((src, ts) # rest) s =
     (case getPose src ts s of
        (Inl e, s') \<Rightarrow> (Inl e, s')
      | (Inr pose, s') \<Rightarrow>
          (case getPose_calls rest s' of
             (Inl e, s'') \<Rightarrow> (Inl e, s'')
           | (Inr poses, s'') \<Rightarrow> (Inr (pose # poses), s'')))"

text \<open>A camera-tracking failure, as the two recoverable branches of \<^verbatim>\<open>getPose\<close> test it:
  the update did not succeed, or the camera is not tracking.\<close>

definition tracking_failure :: "PoseSources \<Rightarrow> bool" where
  "tracking_failure src =
     (arSessionUpdate src \<noteq> AR_SUCCESS \<or> arTrackingState src \<noteq> AR_TRACKING_STATE_TRACKING)"

section \<open>Per-eye view parameters\<close>

text \<open>\<^verbatim>\<open>updateViewConfigs\<close>; \<open>now\<close> is the value of
  \<^verbatim>\<open>GetBootTimeNano() + alvr_get_head_prediction_offset_ns()\<close> at the call, used when the
  argument is 0.\<close>

definition updateViewConfigs ::
  "PoseSources \<Rightarrow> 64 word \<Rightarrow> 64 word \<Rightarrow> Process \<Rightarrow> (error + unit) \<times> Process" where
  "updateViewConfigs src now targetTimestampNs0 s0 =
     (let targetTimestampNs = (if targetTimestampNs0 = 0 then now else targetTimestampNs0)
      in case getPose src targetTimestampNs s0 of
           (Inl e, s1) \<Rightarrow> (Inl e, s1)
         | (Inr headPose, s1) \<Rightarrow>
             (let s2 = s1\<lparr> deviceMotion := \<lparr> device_id = HEAD_ID s1, dm_pose = headPose \<rparr> \<rparr>;
                  headToEyeL = (fst (eyeOffsets s2), 0, 0);
                  vpL = \<lparr> vp_pose = headPose\<lparr> position :=
                                      offsetPosWithQuat (orientation headPose) headToEyeL
                                        (position headPose) \<rparr>,
                          vp_fov = fst (fovArr s2) \<rparr>;
                  headToEyeR = (snd (eyeOffsets s2), 0, 0);
                  vpR = \<lparr> vp_pose = headPose\<lparr> position :=
                                      offsetPosWithQuat (orientation headPose) headToEyeR
                                        (position headPose) \<rparr>,
                          vp_fov = snd (fovArr s2) \<rparr>
              in (Inr (), s2\<lparr> viewParams := (vpL, vpR) \<rparr>)))"

section \<open>Settings document\<close>

text \<open>The settings arrive as JSON text and are read through the JSON library the file
  includes. Its documents are modelled as a datatype, and the three operations the code
  uses as the library documents them: \<^verbatim>\<open>operator[]\<close> with a string key on a mutable
  document yields the member of an object, a null for a missing member and for a null
  document, and throws for every other kind of document; the conversion to \<^verbatim>\<open>float\<close>
  accepts numbers and booleans and throws for everything else.\<close>

datatype json =
    JNull
  | JBool bool
  | JNumber real
  | JString string
  | JArray "json list"
  | JObject "(string \<times> json) list"

fun is_null :: "json \<Rightarrow> bool" where
  "is_null JNull = True"
| "is_null _ = False"

fun is_string :: "json \<Rightarrow> bool" where
  "is_string (JString _) = True"
| "is_string _ = False"

fun json_index :: "json \<Rightarrow> string \<Rightarrow> error + json" where
  "json_index JNull key = Inr JNull"
| "json_index (JObject members) key =
     Inr (case map_of members key of None \<Rightarrow> JNull | Some v \<Rightarrow> v)"
| "json_index _ key = Inl (JsonException ''cannot use operator[] with a string argument'')"

fun json_to_float :: "json \<Rightarrow> error + real" where
  "json_to_float (JNumber r) = Inr r"
| "json_to_float (JBool b) = Inr (if b then 1 else 0)"
| "json_to_float _ = Inl (JsonException ''type must be number'')"

definition bindE :: "error + 'a \<Rightarrow> ('a \<Rightarrow> error + 'b) \<Rightarrow> error + 'b" where
  "bindE r f = (case r of Inl e \<Rightarrow> Inl e | Inr v \<Rightarrow> f v)"

text \<open>\<^verbatim>\<open>doc[k1][k2]...\<close>, left to right.\<close>

fun json_path :: "json \<Rightarrow> string list \<Rightarrow> error + json" where
  "json_path doc [] = Inr doc"
| "json_path doc (key # keys) = bindE (json_index doc key) (\<lambda>member. json_path member keys)"

definition foveation_value :: "json \<Rightarrow> string \<Rightarrow> error + real" where
  "foveation_value settings_json field =
     bindE (json_path settings_json [''video'', ''foveated_encoding'', ''Enabled'', field])
       json_to_float"

text \<open>The six assignments of the enabled branch, in source order.\<close>

definition foveation_fields :: "json \<Rightarrow> AlvrStreamConfig \<Rightarrow> error + AlvrStreamConfig" where
  "foveation_fields settings_json rc0 =
     bindE (foveation_value settings_json ''center_size_x'') (\<lambda>v1.
     bindE (foveation_value settings_json ''center_size_y'') (\<lambda>v2.
     bindE (foveation_value settings_json ''center_shift_x'') (\<lambda>v3.
     bindE (foveation_value settings_json ''center_shift_y'') (\<lambda>v4.
     bindE (foveation_value settings_json ''edge_ratio_x'') (\<lambda>v5.
     bindE (foveation_value settings_json ''edge_ratio_y'') (\<lambda>v6.
       Inr (rc0\<lparr> foveation_center_size_x := v1, foveation_center_size_y := v2,
                 foveation_center_shift_x := v3, foveation_center_shift_y := v4,
                 foveation_edge_ratio_x := v5, foveation_edge_ratio_y := v6 \<rparr>)))))))"

text \<open>The nested \<^verbatim>\<open>if\<close> on the settings of the stream-start handler.\<close>

definition streamConfig_foveation ::
  "json \<Rightarrow> AlvrStreamConfig \<Rightarrow> Process \<Rightarrow> (error + AlvrStreamConfig) \<times> Process" where
  "streamConfig_foveation settings_json render_config s =
     (case json_path settings_json [''video''] of
        Inl e \<Rightarrow> (Inl e, s)
      | Inr video \<Rightarrow>
          if \<not> is_null video then
            (case json_path settings_json [''video'', ''foveated_encoding''] of
               Inl e \<Rightarrow> (Inl e, s)
             | Inr fe \<Rightarrow>
                 if \<not> is_null fe then
                   (let s1 = emit (LogInfo ''settings_json.video.foveated_encoding is'') s
                    in if \<not> is_string fe then
                         (case foveation_fields settings_json
                                 (render_config\<lparr> enable_foveation := True \<rparr>) of
                            Inl e \<Rightarrow> (Inl e, s1)
                          | Inr rc \<Rightarrow> (Inr rc, s1))
                       else (Inr render_config, emit (LogInfo ''foveated_encoding is Disabled'') s1))
                 else (Inr render_config,
                       emit (LogError ''settings_json has no video.foveated_encoding key'') s))
          else (Inr render_config, emit (LogError ''settings_json has no video key'') s))"

section \<open>Render tick and event handlers\<close>

text \<open>Division of \<^verbatim>\<open>int\<close> by 2 as C++ does it (towards zero).\<close>

definition c_div2 :: "int \<Rightarrow> int" where
  "c_div2 n = (if n < 0 then - ((- n) div 2) else n div 2)"

datatype AlvrEvent =
    ALVR_EVENT_HUD_MESSAGE_UPDATED string
  | ALVR_EVENT_STREAMING_STARTED "32 word" "32 word" "json option"
  | ALVR_EVENT_STREAMING_STOPPED
  | ALVR_EVENT_OTHER

text \<open>What the collaborators answer during one call of \<^verbatim>\<open>renderNative\<close>: the size of the
  saved device parameters, element 12 of each eye-from-head matrix, the four angles of
  each eye's field of view, the events \<^verbatim>\<open>alvr_poll_event\<close> delivers (a stream-start event
  with its resolution and the document \<^verbatim>\<open>json::parse\<close> makes of the settings text,
  \<open>None\<close> when it throws its parse error, a HUD event with the message), the timestamp of \<^verbatim>\<open>alvr_get_frame\<close>, the clock, and the tracking
  sources.\<close>

record RenderInputs =
  savedDeviceParamsSize :: int
  eyeFromHeadMatrix12 :: "real \<times> real"
  lensFieldOfView :: "(real \<times> real \<times> real \<times> real) \<times> (real \<times> real \<times> real \<times> real)"
  polledEvents :: "AlvrEvent list"
  frameTimestampNs :: int
  bootTimeNano :: "64 word"
  poseSources :: PoseSources

definition getFov :: "real \<times> real \<times> real \<times> real \<Rightarrow> AlvrFov" where
  "getFov f = (case f of (f0, f1, f2, f3) \<Rightarrow>
     \<lparr> fov_left = - f0, fov_right = f1, fov_up = f3, fov_down = - f2 \<rparr>)"

text \<open>The block under \<^verbatim>\<open>if (CTX.renderingParamsChanged)\<close>; the flag returned is
  \<open>False\<close> at the early \<^verbatim>\<open>return\<close> taken when no device parameters are saved.\<close>

definition render_newParams :: "RenderInputs \<Rightarrow> Process \<Rightarrow> bool \<times> Process" where
  "render_newParams inp s =
     (if renderingParamsChanged s then
        (let s1 = emit (LogInfo ''renderingParamsChanged, processing new params'') s
         in if savedDeviceParamsSize inp = 0 then (False, s1)
            else
              (let s2 = s1\<lparr> eyeOffsets := eyeFromHeadMatrix12 inp \<rparr>;
                   s3 = s2\<lparr> fovArr := (getFov (fst (lensFieldOfView inp)),
                                        getFov (snd (lensFieldOfView inp))) \<rparr>;
                   s4 = (if arcoreEnabled s3 \<and> arSession s3 \<noteq> None
                         then emit (ArSetDisplayGeometry (screenRotation s3) (screenWidth s3)
                                      (screenHeight s3)) s3
                         else s3)
               in (True, s4)))
      else (True, s))"

text \<open>The two blocks that release and rebuild the lobby textures.\<close>

definition render_lobbyTextures :: "Process \<Rightarrow> Process" where
  "render_lobbyTextures s =
     (let s1 = (if renderingParamsChanged s \<and> \<not> glContextRecreated s
                then emit (GlDeleteTextures LobbyTextures) (emit PauseOpenGl s)
                else s)
      in if renderingParamsChanged s1 \<or> glContextRecreated s1 then
           (let w = c_div2 (screenWidth s1);
                h = screenHeight s1;
                s2 = emit (GlGenTextures LobbyTextures) s1;
                s3 = emit (GlTexImage2D LobbyTextures w h) (emit (GlTexImage2D LobbyTextures w h) s2);
                s4 = emit (ResumeOpenGl w h) s3;
                s5 = (if arcoreEnabled s4 \<and> arSession s4 \<noteq> None
                      then emit (GlGenTextures ArTexture) s4 else s4)
            in s5\<lparr> renderingParamsChanged := False, glContextRecreated := False \<rparr>)
         else s1)"

definition on_hud_message :: "string \<Rightarrow> Process \<Rightarrow> Process" where
  "on_hud_message message s =
     (let s1 = emit (LogInfo ''ALVR Poll Event: HUD Message Update'') s
      in if length message > 0 then emit (UpdateHudMessageOpenGl message) s1 else s1)"

text \<open>The stream-start handler. The event carries the resolution as two unsigned 32-bit
  values; \<^verbatim>\<open>glTexImage2D\<close> takes its sizes as signed 32-bit values (\<^verbatim>\<open>GLsizei\<close>), so what
  reaches it is the two's-complement reading of the same bits. The stream configuration
  keeps the unsigned values.\<close>

definition on_streaming_started ::
  "RenderInputs \<Rightarrow> 32 word \<Rightarrow> 32 word \<Rightarrow> json option \<Rightarrow> Process \<Rightarrow> (error + unit) \<times> Process" where
  "on_streaming_started inp view_width view_height parsed s =
     (let s1 = emit (LogInfo ''ALVR_EVENT_STREAMING_STARTED, generating and binding textures'') s;
          s2 = emit (LogInfo ''Got settings from ALVR Server'') s1
      in case parsed of
           None \<Rightarrow> (Inl (JsonException ''parse error''), s2)
         | Some settings_json \<Rightarrow>
             (let s3 = emit (GlGenTextures StreamTextures) s2;
                  s4 = emit (GlTexImage2D StreamTextures (sint view_width) (sint view_height))
                         (emit (GlTexImage2D StreamTextures (sint view_width) (sint view_height)) s3);
                  s5 = s4\<lparr> fovArr := (getFov (fst (lensFieldOfView inp)),
                                        getFov (snd (lensFieldOfView inp))) \<rparr>;
                  render_config =
                    \<lparr> view_resolution_width = view_width,
                      view_resolution_height = view_height,
                      swapchain_length = 1,
                      enable_foveation = False,
                      foveation_center_size_x = 0, foveation_center_size_y = 0,
                      foveation_center_shift_x = 0, foveation_center_shift_y = 0,
                      foveation_edge_ratio_x = 0, foveation_edge_ratio_y = 0 \<rparr>
              in case streamConfig_foveation settings_json render_config s5 of
                   (Inl e, s6) \<Rightarrow> (Inl e, s6)
                 | (Inr rc, s6) \<Rightarrow>
                     (let s7 = emit (StartStreamOpenGl rc) (emit (LogInfo ''Settings for foveation'') s6);
                          s8 = emit (WriteStreaming True) (s7\<lparr> streaming := True \<rparr>)
                      in if inputThread s8 = Joinable then (Inl Terminate, s8)
                         else (Inr (), emit SpawnInputThread (s8\<lparr> inputThread := Joinable \<rparr>)))))"

definition on_streaming_stopped :: "Process \<Rightarrow> (error + unit) \<times> Process" where
  "on_streaming_stopped s =
     (let s1 = emit (LogInfo ''ALVR_EVENT_STREAMING_STOPPED, Waiting for inputThread to join'') s;
          s2 = emit (WriteStreaming False) (s1\<lparr> streaming := False \<rparr>)
      in if inputThread s2 \<noteq> Joinable then (Inl SystemError, s2)
         else
           (let s3 = emit JoinInputThread (s2\<lparr> inputThread := NotAThread \<rparr>);
                s4 = emit (GlDeleteTextures StreamTextures) s3
            in (Inr (), emit (LogInfo ''ALVR_EVENT_STREAMING_STOPPED, Stream stopped deleted textures'') s4)))"

text \<open>The body of the polling loop for one event.\<close>

fun handle_event :: "RenderInputs \<Rightarrow> AlvrEvent \<Rightarrow> Process \<Rightarrow> (error + unit) \<times> Process" where
  "handle_event inp (ALVR_EVENT_HUD_MESSAGE_UPDATED message) s = (Inr (), on_hud_message message s)"
| "handle_event inp (ALVR_EVENT_STREAMING_STARTED view_width view_height parsed) s =
     on_streaming_started inp view_width view_height parsed s"
| "handle_event inp ALVR_EVENT_STREAMING_STOPPED s = on_streaming_stopped s"
| "handle_event inp ALVR_EVENT_OTHER s = (Inr (), s)"

fun poll_events :: "RenderInputs \<Rightarrow> AlvrEvent list \<Rightarrow> Process \<Rightarrow> (error + unit) \<times> Process" where
  "poll_events inp [] s = (Inr (), s)"
| "poll_events inp (event # events) s =
     (case handle_event inp event s of
        (Inl e, s') \<Rightarrow> (Inl e, s')
      | (Inr _, s') \<Rightarrow> poll_events inp events s')"

text \<open>One iteration of the per-eye loop of the lobby branch, statement by statement.\<close>

definition lobby_viewInput :: "AlvrPose \<Rightarrow> real \<Rightarrow> AlvrFov \<Rightarrow> AlvrViewInput" where
  "lobby_viewInput pose eyeOffset fov =
     (let vi0 = zeroViewInput;
          headToEye = (eyeOffset, 0, 0);
          vi1 = vi0\<lparr> vi_pose := (vi_pose vi0)\<lparr> position :=
                   offsetPosWithQuat (orientation pose) headToEye (position (vi_pose vi0)) \<rparr> \<rparr>;
          vi2 = vi1\<lparr> vi_pose := pose \<rparr>;
          vi3 = vi2\<lparr> vi_fov := fov \<rparr>
      in vi3\<lparr> swapchain_index := 0 \<rparr>)"

text \<open>The part of the tick after the polling loop; \<open>Inr False\<close> is the early
  \<^verbatim>\<open>return\<close> when no frame is ready.\<close>

definition render_frame :: "RenderInputs \<Rightarrow> Process \<Rightarrow> (error + bool) \<times> Process" where
  "render_frame inp s =
     (if streaming s then
        (if frameTimestampNs inp = - 1 then (Inr False, s)
         else
           (let s1 = emit ReportSubmit (emit RenderStreamOpenGl s)
            in (Inr True, emit (RenderEyeToDisplay StreamTextures) s1)))
      else
        (case getPose (poseSources inp) (bootTimeNano inp + VSYNC_QUEUE_INTERVAL_NS) s of
           (Inl e, s1) \<Rightarrow> (Inl e, s1)
         | (Inr pose, s1) \<Rightarrow>
             (let viewInputs =
                    (lobby_viewInput pose (fst (eyeOffsets s1)) (getFov (fst (lensFieldOfView inp))),
                     lobby_viewInput pose (snd (eyeOffsets s1)) (getFov (snd (lensFieldOfView inp))));
                  s2 = emit (RenderLobbyOpenGl viewInputs) s1
              in (Inr True, emit (RenderEyeToDisplay LobbyTextures) s2))))"

text \<open>The \<^verbatim>\<open>try\<close> block of \<^verbatim>\<open>renderNative\<close>.\<close>

definition renderNative_try :: "RenderInputs \<Rightarrow> Process \<Rightarrow> (error + unit) \<times> Process" where
  "renderNative_try inp s =
     (case render_newParams inp s of
        (False, s1) \<Rightarrow> (Inr (), s1)
      | (True, s1) \<Rightarrow>
          (case poll_events inp (polledEvents inp) (render_lobbyTextures s1) of
             (Inl e, s2) \<Rightarrow> (Inl e, s2)
           | (Inr _, s2) \<Rightarrow>
               (case render_frame inp s2 of
                  (Inl e, s3) \<Rightarrow> (Inl e, s3)
                | (Inr _, s3) \<Rightarrow> (Inr (), s3))))"

text \<open>\<^verbatim>\<open>renderNative\<close>: a \<^verbatim>\<open>json::exception\<close> is caught and logged, everything else
  propagates.\<close>

definition renderNative :: "RenderInputs \<Rightarrow> Process \<Rightarrow> (error + unit) \<times> Process" where
  "renderNative inp s =
     (case renderNative_try inp s of
        (Inl (JsonException what), s') \<Rightarrow> (Inr (), emit (LogError what) s')
      | r \<Rightarrow> r)"

definition setScreenResolutionNative :: "int \<Rightarrow> int \<Rightarrow> Process \<Rightarrow> Process" where
  "setScreenResolutionNative width height s =
     s\<lparr> screenWidth := width, screenHeight := height, renderingParamsChanged := True \<rparr>"

definition setScreenRotationNative :: "int \<Rightarrow> Process \<Rightarrow> Process" where
  "setScreenRotationNative rotation s =
     s\<lparr> screenRotation := rotation, renderingParamsChanged := True \<rparr>"

definition surfaceCreatedNative :: "Process \<Rightarrow> Process" where
  "surfaceCreatedNative s = s\<lparr> glContextRecreated := True \<rparr>"

section \<open>Initialisation\<close>

text \<open>What the collaborators answer during \<^verbatim>\<open>initializeNative\<close>.\<close>

record InitEnv =
  arSessionCreate_ok :: bool
  arSessionConfigure_ok :: bool
  pressureSensor_present :: bool
  enableSensor_status :: int
  setEventRate_status :: int

definition initialize_arcore :: "InitEnv \<Rightarrow> Process \<Rightarrow> bool \<times> Process" where
  "initialize_arcore env s =
     (if arcoreEnabled s then
        (if \<not> arSessionCreate_ok env
         then (False, (emit (LogError ''initializeNative: Could not create ARCore session'') s)
                        \<lparr> arcoreEnabled := False \<rparr>)
         else
           (let s1 = s\<lparr> arSession := Some 1 \<rparr>
            in if \<not> arSessionConfigure_ok env
               then (False, emit (LogError ''initializeNative: Could not configure ARCore session'') s1)
               else (True, s1)))
      else (True, s))"

definition initialize_barometer :: "InitEnv \<Rightarrow> Process \<Rightarrow> Process" where
  "initialize_barometer env s =
     (if useBarometerAltitudeTracking s then
        (if \<not> pressureSensor_present env
         then emit (LogError ''initializeNative: Could not get pressure sensor'') s
         else if enableSensor_status env \<noteq> 0
         then emit (LogError ''initializeNative: Could not enable pressure sensor'') s
         else if setEventRate_status env \<noteq> 0
         then emit (LogError ''initializeNative: Could not set pressure sensor event rate'') s
         else s)
      else s)"

definition initializeNative ::
  "InitEnv \<Rightarrow> int \<Rightarrow> int \<Rightarrow> real \<Rightarrow> bool \<Rightarrow> Process \<Rightarrow> Process" where
  "initializeNative env screenW screenH refreshRate enableARCore s =
     (let viewWidth = (word_of_int (c_div2 (max screenW screenH)) :: 32 word);
          viewHeight = (word_of_int (min screenW screenH) :: 32 word);
          s1 = emit (AlvrInitialize viewWidth viewHeight refreshRate) s;
          s2 = s1\<lparr> arcoreEnabled := enableARCore \<rparr>
      in case initialize_arcore env s2 of
           (False, s3) \<Rightarrow> s3
         | (True, s3) \<Rightarrow> initialize_barometer env s3)"

section \<open>Tracking dispatch: \<^verbatim>\<open>inputThread\<close>\<close>

text \<open>The increment of the deadline, \<^verbatim>\<open>(uint64_t) (1e9 / 60.f / 3)\<close> nanoseconds.\<close>

definition dispatch_interval_ns :: "64 word" where
  "dispatch_interval_ns = word_of_int \<lfloor>(1000000000 :: real) / 60 / 3\<rfloor>"

record EglSetup =
  eglGetDisplay_ok :: bool
  eglInitialize_ok :: bool
  eglChooseConfig_ok :: bool
  eglNumConfigs :: int
  eglCreatePbufferSurface_ok :: bool
  eglCreateContext_ok :: bool
  eglMakeCurrent_ok :: bool

text \<open>The block under \<^verbatim>\<open>if (CTX.arcoreEnabled)\<close> at the start of the thread: the first
  failing step throws.\<close>

definition inputThread_egl :: "EglSetup \<Rightarrow> Process \<Rightarrow> error option" where
  "inputThread_egl egl s =
     (if arcoreEnabled s then
        (if \<not> eglGetDisplay_ok egl then Some (RuntimeError ''Failed to get EGL display.'')
         else if \<not> eglInitialize_ok egl then Some (RuntimeError ''Failed to initialize EGL.'')
         else if \<not> eglChooseConfig_ok egl then Some (RuntimeError ''Failed to choose EGL config.'')
         else if eglNumConfigs egl = 0
         then Some (RuntimeError ''No suitable EGL configurations found.'')
         else if \<not> eglCreatePbufferSurface_ok egl
         then Some (RuntimeError ''Failed to create EGL pbuffer surface.'')
         else if \<not> eglCreateContext_ok egl then Some (RuntimeError ''Failed to create EGL context.'')
         else if \<not> eglMakeCurrent_ok egl
         then Some (RuntimeError ''Failed to make EGL context current.'')
         else None)
      else None)"

text \<open>One test of the loop condition and what the iteration then reads: the value of
  \<^verbatim>\<open>CTX.streaming\<close> seen by the thread (the render thread writes it), the value of
  \<^verbatim>\<open>GetBootTimeNano() + alvr_get_head_prediction_offset_ns()\<close>, and the tracking
  sources.\<close>

record DispatchTick =
  streamingSeen :: bool
  tickTargetNs :: "64 word"
  tickSources :: PoseSources

datatype thread_result = ThreadExited | ThreadRunning | ThreadThrew error

text \<open>The \<^verbatim>\<open>while\<close> loop. The list holds the iterations observed; when it is used up with
  the flag still set the thread is still running.\<close>

fun inputThread_loop ::
  "DispatchTick list \<Rightarrow> 64 word \<Rightarrow> Process \<Rightarrow> thread_result \<times> 64 word \<times> Process" where
  "inputThread_loop [] deadline s = (ThreadRunning, deadline, s)"
| "inputThread_loop (tick # ticks) deadline s =
     (if \<not> streamingSeen tick then (ThreadExited, deadline, s)
      else
        (case updateViewConfigs (tickSources tick) (tickTargetNs tick) (tickTargetNs tick) s of
           (Inl e, s1) \<Rightarrow> (ThreadThrew e, deadline, s1)
         | (Inr _, s1) \<Rightarrow>
             (let s2 = emit (SendTracking (tickTargetNs tick) (viewParams s1) (deviceMotion s1)) s1;
                  deadline' = deadline + dispatch_interval_ns;
                  s3 = emit (SleepUntil deadline') s2
              in inputThread_loop ticks deadline' s3)))"

text \<open>\<^verbatim>\<open>inputThread\<close>; \<open>now\<close> is the reading of the steady clock at its start.\<close>

definition inputThread_run ::
  "EglSetup \<Rightarrow> 64 word \<Rightarrow> DispatchTick list \<Rightarrow> Process \<Rightarrow> thread_result \<times> 64 word \<times> Process" where
  "inputThread_run egl now ticks s =
     (case inputThread_egl egl s of
        Some e \<Rightarrow> (ThreadThrew e, now, s)
      | None \<Rightarrow> inputThread_loop ticks now s)"

text \<open>The deadlines the thread has slept until, in order.\<close>

fun sleep_deadlines :: "effect list \<Rightarrow> 64 word list" where
  "sleep_deadlines [] = []"
| "sleep_deadlines (SleepUntil d # es) = d # sleep_deadlines es"
| "sleep_deadlines (_ # es) = sleep_deadlines es"

section \<open>Vocabulary of the properties\<close>

definition quatOfArray :: "real \<times> real \<times> real \<times> real \<Rightarrow> AlvrQuat" where
  "quatOfArray q = (case q of (q0, q1, q2, q3) \<Rightarrow> \<lparr> qx = q0, qy = q1, qz = q2, qw = q3 \<rparr>)"

text \<open>The guard of the camera block of \<^verbatim>\<open>getPose\<close>, and the guard of its head-tracker
  block.\<close>

definition cameraTrackingActive :: "Process \<Rightarrow> bool" where
  "cameraTrackingActive s = (arcoreEnabled s \<and> arSession s \<noteq> None)"

definition headTrackerQueried :: "Process \<Rightarrow> bool" where
  "headTrackerQueried s = (\<not> arcoreEnabled s \<or> (arcoreEnabled s \<and> \<not> useARCoreOrientation s))"

definition tracking_success :: "PoseSources \<Rightarrow> bool" where
  "tracking_success src =
     (arSessionUpdate src = AR_SUCCESS \<and> arTrackingState src = AR_TRACKING_STATE_TRACKING)"

text \<open>The line \<^verbatim>\<open>getPose\<close> logs for a camera-tracking failure: the failed update is
  tested first.\<close>

definition failure_message :: "PoseSources \<Rightarrow> string" where
  "failure_message src =
     (if arSessionUpdate src \<noteq> AR_SUCCESS
      then ''getPose: ArSession_update failed, using last position''
      else ''getPose: Camera is not tracking, using last position'')"

definition pose_y :: "AlvrPose \<Rightarrow> real" where
  "pose_y pose = fst (snd (position pose))"

definition identityQuat :: AlvrQuat where
  "identityQuat = \<lparr> qx = 0, qy = 0, qz = 0, qw = 1 \<rparr>"

text \<open>Concrete inputs used below: a process with camera tracking switched on, tracking
  sources whose camera fails to update, sources without a graphics context, and sources
  that track.\<close>

definition camera_process :: Process where
  "camera_process = (initial_process 0)\<lparr> arcoreEnabled := True, arSession := Some 1 \<rparr>"

definition sources_update_failed :: PoseSources where
  "sources_update_failed =
     \<lparr> headTrackerPose = (\<lambda>t. (0, 0, 1, 0)), eglCurrentContext = True,
       arSessionUpdate = - 1, arTrackingState = AR_TRACKING_STATE_PAUSED,
       arRawPose = [0, 0, 0, 1, 0, 0, 0] \<rparr>"

definition sources_no_context :: PoseSources where
  "sources_no_context =
     \<lparr> headTrackerPose = (\<lambda>t. (0, 0, 0, 1)), eglCurrentContext = False,
       arSessionUpdate = 0, arTrackingState = AR_TRACKING_STATE_TRACKING,
       arRawPose = [0, 0, 0, 1, 0, 0, 0] \<rparr>"

definition sources_tracking :: PoseSources where
  "sources_tracking =
     \<lparr> headTrackerPose = (\<lambda>t. (0, 0, 0, 1)), eglCurrentContext = True,
       arSessionUpdate = 0, arTrackingState = AR_TRACKING_STATE_TRACKING,
       arRawPose = [0, 0, 0, 1, 1 / 2, 0, 1 / 4] \<rparr>"

text \<open>The process after one successful camera read, the process after the barometer's
  first sample, and the three samples of the altitude example.\<close>

definition tracked_process :: Process where
  "tracked_process = snd (getPose sources_tracking 0 camera_process)"

definition calibrated_process :: Process where
  "calibrated_process = snd (onSensorChanged [pressureSample 1000] camera_process)"

definition altitude_samples :: "ASensorEvent list" where
  "altitude_samples = map pressureSample [1013.25, 1010, 1005]"

text \<open>The eye position as the specification words it: the head position minus the
  rotated eye offset, then the floor height constant added to the vertical component.
  The rotation is a parameter.\<close>

definition eyePos_spec ::
  "(AlvrQuat \<Rightarrow> vec3 \<Rightarrow> vec3) \<Rightarrow> vec3 \<Rightarrow> AlvrQuat \<Rightarrow> vec3 \<Rightarrow> real \<Rightarrow> vec3" where
  "eyePos_spec rot headPos headOrientation offset floorHeightConstant =
     (case (headPos, rot headOrientation offset) of
        ((h0, h1, h2), (r0, r1, r2)) \<Rightarrow> (h0 - r0, (h1 - r1) + floorHeightConstant, h2 - r2))"

text \<open>Rotation of a vector by a unit quaternion, as the product \<open>q v q\<^sup>-\<^sup>1\<close> of
  quaternions.\<close>

definition quatMul :: "AlvrQuat \<Rightarrow> AlvrQuat \<Rightarrow> AlvrQuat" where
  "quatMul a b =
     \<lparr> qx = qw a * qx b + qx a * qw b + qy a * qz b - qz a * qy b,
       qy = qw a * qy b - qx a * qz b + qy a * qw b + qz a * qx b,
       qz = qw a * qz b + qx a * qy b - qy a * qx b + qz a * qw b,
       qw = qw a * qw b - qx a * qx b - qy a * qy b - qz a * qz b \<rparr>"

definition rotate_unit :: "AlvrQuat \<Rightarrow> vec3 \<Rightarrow> vec3" where
  "rotate_unit q v =
     (case v of (v0, v1, v2) \<Rightarrow>
        let p = quatMul (quatMul q \<lparr> qx = v0, qy = v1, qz = v2, qw = 0 \<rparr>) (inverseQuat q)
        in (qx p, qy p, qz p))"

definition quatNorm2 :: "AlvrQuat \<Rightarrow> real" where
  "quatNorm2 q = qx q * qx q + qy q * qy q + qz q * qz q + qw q * qw q"

text \<open>A process in the lobby: no camera tracking, eye offsets of 3 cm to either side,
  textures built. Its head tracker reports the identity orientation.\<close>

definition lobby_process :: Process where
  "lobby_process =
     (initial_process 0)\<lparr> eyeOffsets := (0.03, - 0.03), renderingParamsChanged := False \<rparr>"

definition lobby_inputs :: RenderInputs where
  "lobby_inputs =
     \<lparr> savedDeviceParamsSize = 16, eyeFromHeadMatrix12 = (0.03, - 0.03),
       lensFieldOfView = ((1, 1, 1, 1), (1, 1, 1, 1)), polledEvents = [],
       frameTimestampNs = - 1, bootTimeNano = 0, poseSources = sources_tracking \<rparr>"

text \<open>One third of the nominal display refresh period, in nanoseconds, for a refresh
  rate in Hz: the dispatch interval as the specification words it.\<close>

definition dispatch_interval_spec :: "real \<Rightarrow> real" where
  "dispatch_interval_spec refreshRate = 1000000000 / refreshRate / 3"

text \<open>Collaborators that answer with success at initialisation and at the start of the
  tracking thread, and an iteration of the tracking loop that sees the streaming flag
  set.\<close>

definition init_env_ok :: InitEnv where
  "init_env_ok =
     \<lparr> arSessionCreate_ok = True, arSessionConfigure_ok = True, pressureSensor_present = True,
       enableSensor_status = 0, setEventRate_status = 0 \<rparr>"

definition egl_ok :: EglSetup where
  "egl_ok =
     \<lparr> eglGetDisplay_ok = True, eglInitialize_ok = True, eglChooseConfig_ok = True,
       eglNumConfigs = 1, eglCreatePbufferSurface_ok = True, eglCreateContext_ok = True,
       eglMakeCurrent_ok = True \<rparr>"

definition dispatch_tick :: DispatchTick where
  "dispatch_tick =
     \<lparr> streamingSeen = True, tickTargetNs = 100, tickSources = sources_tracking \<rparr>"

text \<open>The process after \<^verbatim>\<open>initializeNative\<close> was called for a 90 Hz display, without camera
  tracking.\<close>

definition process_90Hz :: Process where
  "process_90Hz = initializeNative init_env_ok 2400 1080 90 False (initial_process 0)"

text \<open>Log lines among the effects, and the number of allocations of the lobby texture
  pair in a trace.\<close>

fun is_log :: "effect \<Rightarrow> bool" where
  "is_log (LogInfo _) = True"
| "is_log (LogError _) = True"
| "is_log _ = False"

definition lobby_allocs :: "effect list \<Rightarrow> nat" where
  "lobby_allocs es = length (filter (\<lambda>e. e = GlGenTextures LobbyTextures) es)"

text \<open>The foveation setting of a settings document: the member
  \<^verbatim>\<open>video.foveated_encoding\<close>, null when \<^verbatim>\<open>video\<close> or the member is absent. Foveation is
  off for a document when that setting is absent or a string (\<^verbatim>\<open>"Disabled"\<close>). The
  error of a document is the exception its foveation fields raise when read, if any.\<close>

definition foveation_setting :: "json \<Rightarrow> error + json" where
  "foveation_setting settings_json =
     (case json_path settings_json [''video''] of
        Inl e \<Rightarrow> Inl e
      | Inr video \<Rightarrow>
          if is_null video then Inr JNull
          else json_path settings_json [''video'', ''foveated_encoding''])"

definition foveation_off :: "json \<Rightarrow> bool" where
  "foveation_off settings_json =
     (case foveation_setting settings_json of
        Inl e \<Rightarrow> False
      | Inr fe \<Rightarrow> is_null fe \<or> is_string fe)"





definition streaming_process :: Process where
  "streaming_process = lobby_process\<lparr> streaming := True, inputThread := Joinable \<rparr>"


definition foveation_logs :: "json \<Rightarrow> effect list" where
  "foveation_logs settings_json =
     (case json_path settings_json [''video''] of
        Inl e \<Rightarrow> []
      | Inr video \<Rightarrow>
          if \<not> is_null video then
            (case json_path settings_json [''video'', ''foveated_encoding''] of
               Inl e \<Rightarrow> []
             | Inr fe \<Rightarrow>
                 if \<not> is_null fe then
                   LogInfo ''settings_json.video.foveated_encoding is'' #
                   (if \<not> is_string fe then [] else [LogInfo ''foveated_encoding is Disabled''])
                 else [LogError ''settings_json has no video.foveated_encoding key''])
          else [LogError ''settings_json has no video key''])"

definition foveation_result :: "json \<Rightarrow> AlvrStreamConfig \<Rightarrow> error + AlvrStreamConfig" where
  "foveation_result settings_json rc =
     (case foveation_setting settings_json of
        Inl e \<Rightarrow> Inl e
      | Inr fe \<Rightarrow>
          if is_null fe \<or> is_string fe then Inr rc
          else foveation_fields settings_json (rc\<lparr> enable_foveation := True \<rparr>))"

text \<open>The part of the state the geometry triggers and the texture rebuild work on: the two
  dirty flags and the number of lobby texture allocations so far.\<close>

definition geometry :: "Process \<Rightarrow> bool \<times> bool \<times> nat" where
  "geometry s = (renderingParamsChanged s, glContextRecreated s, lobby_allocs (trace s))"


definition uncalibrated_inputs :: RenderInputs where
  "uncalibrated_inputs = lobby_inputs\<lparr> savedDeviceParamsSize := 0 \<rparr>"

text \<open>A trace in which every release of the stream textures comes directly after the
  join of the tracking thread; \<open>prev\<close> is the effect before the first of the list.\<close>

fun release_guarded :: "effect \<Rightarrow> effect list \<Rightarrow> bool" where
  "release_guarded prev [] = True"
| "release_guarded prev (e # es) =
     ((if e = GlDeleteTextures StreamTextures then prev = JoinInputThread else True)
      \<and> release_guarded e es)"

text \<open>A head turned about the vertical axis of the quaternion (a unit quaternion that is
  not the identity), a head tracker that reports it, and a render tick that polls another
  event before the stream-start event with the incomplete settings.\<close>

definition turnedQuat :: AlvrQuat where
  "turnedQuat = \<lparr> qx = 0, qy = 0, qz = 3 / 5, qw = 4 / 5 \<rparr>"

definition sources_turned :: PoseSources where
  "sources_turned =
     \<lparr> headTrackerPose = (\<lambda>t. (0, 0, - (3 / 5), 4 / 5)), eglCurrentContext = True,
       arSessionUpdate = 0, arTrackingState = AR_TRACKING_STATE_TRACKING,
       arRawPose = [0, 0, 0, 1, 0, 0, 0] \<rparr>"


section \<open>Properties\<close>

subsection \<open>Altitude estimator\<close>

lemma pressureToAltitude_same: "p0 \<noteq> 0 \<Longrightarrow> pressureToAltitude p0 p0 = 0"
  by (simp add: pressureToAltitude_def)

lemma pressureToAltitude_pos:
  assumes "0 < p" "p < p0"
  shows "0 < pressureToAltitude p0 p"
proof -
  have "0 < p / p0" "p / p0 < 1" using assms by simp_all
  then have "(p / p0) powr (1 / 5.255) < 1"
    by (simp add: powr01_less_one)
  then show ?thesis
    by (simp add: pressureToAltitude_def)
qed

lemma floorAltitude_after_first_sample:
  "floorAltitude (snd (onSensorChanged (take 1 altitude_samples) (initial_process 0))) = 0"
  by (simp add: altitude_samples_def onSensorEvent_def pressureSample_def initial_process_def
      SEA_LEVEL_PRESSURE_def pressureToAltitude_same)

lemma floorAltitude_after_samples:
  "floorAltitude (snd (onSensorChanged altitude_samples (initial_process 0))) =
     pressureToAltitude SEA_LEVEL_PRESSURE 1010"
  using pressureToAltitude_pos [of 1010 "1013.25"]
  by (simp add: altitude_samples_def onSensorEvent_def pressureSample_def initial_process_def
      SEA_LEVEL_PRESSURE_def pressureToAltitude_same Let_def)

lemma currentPressure_after_samples:
  "currentPressure (snd (onSensorChanged altitude_samples (initial_process 0))) = 1005"
  by (simp add: altitude_samples_def onSensorEvent_def pressureSample_def initial_process_def
      Let_def)

text \<open>
  C3. Fed the samples 1013.25, 1010.0, 1005.0 from its initial state, the estimator does
  not keep the floor altitude of the first sample: that altitude is 0, the value the code
  reads as "not calibrated", so the second sample sets the floor again, to the altitude of
  1010.0. After the third sample the altitude reported is the altitude of 1005.0 minus
  the altitude of 1010.0, and differs from the altitude of 1005.0 minus the altitude of
  1013.25.
\<close>

theorem altitude_samples_floor_recalibrated:
  "floorAltitude (snd (onSensorChanged (take 1 altitude_samples) (initial_process 0))) = 0
   \<and> floorAltitude (snd (onSensorChanged altitude_samples (initial_process 0))) =
       pressureToAltitude 1013.25 1010
   \<and> floorAltitude (snd (onSensorChanged altitude_samples (initial_process 0))) \<noteq>
       floorAltitude (snd (onSensorChanged (take 1 altitude_samples) (initial_process 0)))
   \<and> getAltitudeFromBarometer (snd (onSensorChanged altitude_samples (initial_process 0))) =
       pressureToAltitude 1013.25 1005 - pressureToAltitude 1013.25 1010
   \<and> getAltitudeFromBarometer (snd (onSensorChanged altitude_samples (initial_process 0))) \<noteq>
       pressureToAltitude 1013.25 1005 - pressureToAltitude 1013.25 1013.25"
proof -
  have g: "getAltitudeFromBarometer (snd (onSensorChanged altitude_samples (initial_process 0))) =
       pressureToAltitude 1013.25 1005 - pressureToAltitude 1013.25 1010"
    by (simp add: getAltitudeFromBarometer_def floorAltitude_after_samples
        currentPressure_after_samples SEA_LEVEL_PRESSURE_def)
  have z: "pressureToAltitude 1013.25 1013.25 = 0"
    by (rule pressureToAltitude_same) simp
  have n: "pressureToAltitude 1013.25 1010 \<noteq> 0"
    using pressureToAltitude_pos [of 1010 "1013.25"] by simp
  show ?thesis
    unfolding g floorAltitude_after_first_sample floorAltitude_after_samples
      SEA_LEVEL_PRESSURE_def z
    using n by simp
qed

subsection \<open>Pose fusion\<close>

lemma getPose_headTracker_eq:
  "getPose_headTracker src ts pose s =
     (if headTrackerQueried s
      then (pose\<lparr> orientation := inverseQuat (quatOfArray (headTrackerPose src (sint ts))) \<rparr>,
            s\<lparr> lastOrientation := inverseQuat (quatOfArray (headTrackerPose src (sint ts))) \<rparr>)
      else (pose, s))"
  by (simp add: getPose_headTracker_def headTrackerQueried_def quatOfArray_def Let_def
        split: prod.splits)

lemma getPose_headTracker_fields:
  "arcoreEnabled (snd (getPose_headTracker src ts pose s)) = arcoreEnabled s"
  "arSession (snd (getPose_headTracker src ts pose s)) = arSession s"
  "lastPosition (snd (getPose_headTracker src ts pose s)) = lastPosition s"
  "useARCoreOrientation (snd (getPose_headTracker src ts pose s)) = useARCoreOrientation s"
  "useBarometerAltitudeTracking (snd (getPose_headTracker src ts pose s)) =
     useBarometerAltitudeTracking s"
  "floorAltitude (snd (getPose_headTracker src ts pose s)) = floorAltitude s"
  "currentPressure (snd (getPose_headTracker src ts pose s)) = currentPressure s"
  "trace (snd (getPose_headTracker src ts pose s)) = trace s"
  "position (fst (getPose_headTracker src ts pose s)) = position pose"
  by (simp_all add: getPose_headTracker_eq)

lemma getPose_no_context:
  "cameraTrackingActive s \<Longrightarrow> \<not> eglCurrentContext src \<Longrightarrow>
   fst (getPose src ts s) = Inl (RuntimeError ''Failed to get EGL context in getPose.'')"
  by (simp add: getPose_def cameraTrackingActive_def getPose_headTracker_fields split_beta)

lemma getPose_returns:
  "\<not> (cameraTrackingActive s \<and> \<not> eglCurrentContext src) \<Longrightarrow>
   \<exists>pose. fst (getPose src ts s) = Inr pose"
  by (auto simp add: getPose_def cameraTrackingActive_def getPose_headTracker_fields
      split_beta Let_def)

lemma camera_process_fields:
  "arcoreEnabled camera_process" "arSession camera_process = Some 1"
  "lastOrientation camera_process = zeroQuat" "lastPosition camera_process = (0, 0, 0)"
  "\<not> useARCoreOrientation camera_process" "useBarometerAltitudeTracking camera_process"
  "floorAltitude camera_process = 0" "currentPressure camera_process = 0"
  "cameraTrackingActive camera_process"
  by (simp_all add: camera_process_def initial_process_def cameraTrackingActive_def)

text \<open>
  C1, as the claim states it, fails: with camera tracking switched on, a camera session
  present and no current graphics context, \<^verbatim>\<open>getPose\<close> throws.
\<close>

theorem getPose_throws_without_context:
  "fst (getPose sources_no_context 0 camera_process) =
     Inl (RuntimeError ''Failed to get EGL context in getPose.'')"
  by (rule getPose_no_context)
     (simp_all add: camera_process_fields sources_no_context_def)

text \<open>
  C1, amended. For every timestamp, state and answer of the tracking sources,
  \<^verbatim>\<open>getPose\<close> returns a pose, except in one configuration: camera tracking is enabled, its
  session exists and the calling thread has no current graphics context. There it throws
  the runtime error "Failed to get EGL context in getPose.".
\<close>

theorem getPose_returns_unless_no_context:
  "(cameraTrackingActive s \<and> \<not> eglCurrentContext src \<longrightarrow>
      fst (getPose src ts s) = Inl (RuntimeError ''Failed to get EGL context in getPose.''))
   \<and> (\<not> (cameraTrackingActive s \<and> \<not> eglCurrentContext src) \<longrightarrow>
      (\<exists>pose. fst (getPose src ts s) = Inr pose))"
  using getPose_no_context [of s src ts] getPose_returns [of s src ts] by blast

theorem getPose_returns_unless_no_context_witness:
  "(cameraTrackingActive camera_process \<and> \<not> eglCurrentContext sources_no_context)
   \<and> fst (getPose sources_no_context 5 camera_process) =
       Inl (RuntimeError ''Failed to get EGL context in getPose.'')
   \<and> \<not> (cameraTrackingActive camera_process \<and> \<not> eglCurrentContext sources_tracking)
   \<and> (\<exists>pose. fst (getPose sources_tracking 5 camera_process) = Inr pose)"
  using getPose_returns_unless_no_context [of camera_process sources_no_context 5]
    getPose_returns_unless_no_context [of camera_process sources_tracking 5]
  by (simp add: camera_process_fields sources_no_context_def sources_tracking_def)

lemma getPose_failure_step:
  assumes "cameraTrackingActive s" "eglCurrentContext src" "tracking_failure src"
  shows "\<exists>s'. getPose src ts s =
            (Inr \<lparr> orientation = lastOrientation s', position = lastPosition s \<rparr>, s')
          \<and> lastOrientation s' =
              (if useARCoreOrientation s then lastOrientation s
               else inverseQuat (quatOfArray (headTrackerPose src (sint ts))))
          \<and> s' = s\<lparr> lastOrientation := lastOrientation s',
                     trace := trace s @ [LogError (failure_message src)] \<rparr>"
proof (cases "headTrackerQueried s")
  case True
  with assms have u: "\<not> useARCoreOrientation s"
    by (auto simp: headTrackerQueried_def cameraTrackingActive_def)
  from assms True u show ?thesis
    unfolding getPose_def getPose_headTracker_eq
    by (auto simp add: cameraTrackingActive_def tracking_failure_def Let_def
        getPose_out_def emit_def zeroPose_def failure_message_def)
next
  case False
  with assms have u: "useARCoreOrientation s"
    by (auto simp: headTrackerQueried_def cameraTrackingActive_def)
  from assms False u show ?thesis
    unfolding getPose_def getPose_headTracker_eq
    by (auto simp add: cameraTrackingActive_def tracking_failure_def Let_def
        getPose_out_def emit_def zeroPose_def failure_message_def)
qed

lemma getPose_failure_stepE:
  assumes "cameraTrackingActive s" "eglCurrentContext src" "tracking_failure src"
  obtains s' where
    "getPose src ts s = (Inr \<lparr> orientation = lastOrientation s', position = lastPosition s \<rparr>, s')"
    "lastOrientation s' =
       (if useARCoreOrientation s then lastOrientation s
        else inverseQuat (quatOfArray (headTrackerPose src (sint ts))))"
    "s' = s\<lparr> lastOrientation := lastOrientation s',
             trace := trace s @ [LogError (failure_message src)] \<rparr>"
  using getPose_failure_step [OF assms, of ts] by blast

lemma camera_process_tracked:
  "fst (getPose sources_tracking 0 camera_process) =
     Inr \<lparr> orientation = identityQuat, position = (1 / 2, 44330, 1 / 4) \<rparr>"
  "lastOrientation tracked_process = identityQuat"
  "lastPosition tracked_process = (1 / 2, 0, 1 / 4)"
  "cameraTrackingActive tracked_process"
  "\<not> useARCoreOrientation tracked_process"
  by (simp_all add: tracked_process_def getPose_def getPose_headTracker_def getPose_camera_def
      camera_process_fields sources_tracking_def split_beta Let_def AR_SUCCESS_def
      getPose_out_def inverseQuat_def zeroPose_def identityQuat_def cameraTrackingActive_def
      getAltitudeFromBarometer_def pressureToAltitude_def SEA_LEVEL_PRESSURE_def)

text \<open>
  C2, as the claim states it, fails. After a successful read (pose returned: identity
  orientation, position (0.5, 44330, 0.25); caches: identity orientation, position
  (0.5, 0, 0.25)) a failed camera update returns the orientation the head tracker gives
  in this very call, (0, 0, -1, 0), next to the cached position: a mix of a fresh and a
  stale component. The failed call also overwrites the orientation cache.
\<close>

theorem getPose_failure_mixes_fresh_orientation:
  "fst (getPose sources_update_failed 0 tracked_process) =
     Inr \<lparr> orientation = \<lparr> qx = 0, qy = 0, qz = - 1, qw = 0 \<rparr>, position = (1 / 2, 0, 1 / 4) \<rparr>
   \<and> lastOrientation tracked_process = \<lparr> qx = 0, qy = 0, qz = 0, qw = 1 \<rparr>
   \<and> lastOrientation (snd (getPose sources_update_failed 0 tracked_process)) =
       \<lparr> qx = 0, qy = 0, qz = - 1, qw = 0 \<rparr>
   \<and> lastOrientation (snd (getPose sources_update_failed 0 tracked_process)) \<noteq>
       lastOrientation tracked_process"
proof -
  have f: "eglCurrentContext sources_update_failed" "tracking_failure sources_update_failed"
    by (simp_all add: sources_update_failed_def tracking_failure_def AR_SUCCESS_def)
  from getPose_failure_stepE [OF camera_process_tracked(4) f, of 0] obtain s' where
    g: "getPose sources_update_failed 0 tracked_process =
          (Inr \<lparr> orientation = lastOrientation s', position = lastPosition tracked_process \<rparr>, s')"
    and o: "lastOrientation s' =
       (if useARCoreOrientation tracked_process then lastOrientation tracked_process
        else inverseQuat (quatOfArray (headTrackerPose sources_update_failed (sint (0 :: 64 word)))))"
    by blast
  have o': "lastOrientation s' = \<lparr> qx = 0, qy = 0, qz = - 1, qw = 0 \<rparr>"
    unfolding o using camera_process_tracked(5)
    by (simp add: sources_update_failed_def inverseQuat_def quatOfArray_def)
  show ?thesis
    by (simp add: g o' camera_process_tracked identityQuat_def)
qed

text \<open>
  C2, amended. For every sequence of calls of \<^verbatim>\<open>getPose\<close> in which camera tracking fails
  (the update does not succeed or the camera is not tracking; camera tracking enabled,
  session and graphics context present), every call returns a pose and logs the failure:
  the trace grows by exactly one error line per call, the line of that call's failure.
  The position of every pose returned is the position cache as it was before the sequence,
  and the position cache is left as it was. The orientation returned is the orientation
  cache as the call leaves it: when the camera's orientation is preferred, the cached
  orientation, untouched; otherwise (the default) the head tracker's orientation of that
  very call, inverted, which the call has written to the cache, so that after the sequence
  the cache holds the orientation of the last pose returned. Nothing else of the state
  changes.
\<close>

theorem getPose_failures_return_cache:
  assumes "cameraTrackingActive s"
    and "\<forall>(src, ts) \<in> set calls. eglCurrentContext src \<and> tracking_failure src"
  shows "\<exists>poses s'. getPose_calls calls s = (Inr poses, s')
      \<and> map position poses = replicate (length calls) (lastPosition s)
      \<and> map orientation poses =
          (if useARCoreOrientation s then replicate (length calls) (lastOrientation s)
           else map (\<lambda>(src, ts). inverseQuat (quatOfArray (headTrackerPose src (sint ts)))) calls)
      \<and> (useARCoreOrientation s \<longrightarrow> lastOrientation s' = lastOrientation s)
      \<and> lastOrientation s' = last (lastOrientation s # map orientation poses)
      \<and> s' = s\<lparr> lastOrientation := lastOrientation s',
                 trace := trace s @ map (\<lambda>(src, ts). LogError (failure_message src)) calls \<rparr>"
  using assms
proof (induction calls arbitrary: s)
  case Nil
  then show ?case by simp
next
  case (Cons c calls)
  obtain src ts where c: "c = (src, ts)" by (cases c)
  from Cons.prems c have f: "eglCurrentContext src" "tracking_failure src" by auto
  from getPose_failure_stepE [OF Cons.prems(1) f, of ts] obtain s1 where
    g: "getPose src ts s =
          (Inr \<lparr> orientation = lastOrientation s1, position = lastPosition s \<rparr>, s1)"
    and lo: "lastOrientation s1 =
              (if useARCoreOrientation s then lastOrientation s
               else inverseQuat (quatOfArray (headTrackerPose src (sint ts))))"
    and s1: "s1 = s\<lparr> lastOrientation := lastOrientation s1,
                      trace := trace s @ [LogError (failure_message src)] \<rparr>"
    by blast
  have act: "cameraTrackingActive s1"
    using Cons.prems(1) by (subst s1) (simp add: cameraTrackingActive_def)
  have lp: "lastPosition s1 = lastPosition s" by (subst s1) simp
  have uo: "useARCoreOrientation s1 = useARCoreOrientation s" by (subst s1) simp
  have tr1: "trace s1 = trace s @ [LogError (failure_message src)]" by (subst s1) simp
  from Cons.prems(2)
  have rest: "\<forall>(src, ts) \<in> set calls. eglCurrentContext src \<and> tracking_failure src"
    by simp
  from Cons.IH [OF act rest] obtain poses s' where
    r: "getPose_calls calls s1 = (Inr poses, s')"
    and p: "map position poses = replicate (length calls) (lastPosition s1)"
    and o: "map orientation poses =
          (if useARCoreOrientation s1 then replicate (length calls) (lastOrientation s1)
           else map (\<lambda>(src, ts). inverseQuat (quatOfArray (headTrackerPose src (sint ts)))) calls)"
    and k: "useARCoreOrientation s1 \<longrightarrow> lastOrientation s' = lastOrientation s1"
    and m: "lastOrientation s' = last (lastOrientation s1 # map orientation poses)"
    and e: "s' = s1\<lparr> lastOrientation := lastOrientation s',
                      trace := trace s1 @ map (\<lambda>(src, ts). LogError (failure_message src)) calls \<rparr>"
    by blast
  have e': "s' = s\<lparr> lastOrientation := lastOrientation s',
                     trace := trace s @
                       map (\<lambda>(src, ts). LogError (failure_message src)) (c # calls) \<rparr>"
    by (subst e, subst s1) (simp add: tr1 c)
  let ?pose = "\<lparr> orientation = lastOrientation s1, position = lastPosition s \<rparr>"
  have "getPose_calls (c # calls) s = (Inr (?pose # poses), s')"
    by (simp add: c g r)
  moreover have "map position (?pose # poses) = replicate (length (c # calls)) (lastPosition s)"
    using p lp by simp
  moreover have "map orientation (?pose # poses)
       = (if useARCoreOrientation s then replicate (length (c # calls)) (lastOrientation s)
          else map (\<lambda>(src, ts). inverseQuat (quatOfArray (headTrackerPose src (sint ts))))
                 (c # calls))"
    using o lo uo c by simp
  moreover have "useARCoreOrientation s \<longrightarrow> lastOrientation s' = lastOrientation s"
    using k lo uo by simp
  moreover have "lastOrientation s' = last (lastOrientation s # map orientation (?pose # poses))"
    using m by simp
  ultimately show ?case using e' by blast
qed

theorem getPose_failures_return_cache_witness:
  "cameraTrackingActive tracked_process
   \<and> eglCurrentContext sources_update_failed \<and> tracking_failure sources_update_failed
   \<and> (\<exists>poses s'.
         getPose_calls [(sources_update_failed, 0), (sources_update_failed, 1)] tracked_process =
           (Inr poses, s')
       \<and> map position poses = [(1 / 2, 0, 1 / 4), (1 / 2, 0, 1 / 4)]
       \<and> map orientation poses =
           [\<lparr> qx = 0, qy = 0, qz = - 1, qw = 0 \<rparr>, \<lparr> qx = 0, qy = 0, qz = - 1, qw = 0 \<rparr>]
       \<and> lastPosition s' = (1 / 2, 0, 1 / 4)
       \<and> lastOrientation s' = \<lparr> qx = 0, qy = 0, qz = - 1, qw = 0 \<rparr>
       \<and> trace s' = trace tracked_process @
           [LogError ''getPose: ArSession_update failed, using last position'',
            LogError ''getPose: ArSession_update failed, using last position''])"
proof -
  have f: "eglCurrentContext sources_update_failed" "tracking_failure sources_update_failed"
    by (simp_all add: sources_update_failed_def tracking_failure_def AR_SUCCESS_def)
  have fm: "failure_message sources_update_failed =
              ''getPose: ArSession_update failed, using last position''"
    by (simp add: failure_message_def sources_update_failed_def AR_SUCCESS_def)
  let ?calls = "[(sources_update_failed, 0 :: 64 word), (sources_update_failed, 1)]"
  have h: "\<forall>(src, ts) \<in> set ?calls. eglCurrentContext src \<and> tracking_failure src"
    using f by simp
  from getPose_failures_return_cache [OF camera_process_tracked(4) h] obtain poses s' where
    r: "getPose_calls ?calls tracked_process = (Inr poses, s')"
    and p: "map position poses = replicate (length ?calls) (lastPosition tracked_process)"
    and o: "map orientation poses =
          (if useARCoreOrientation tracked_process
           then replicate (length ?calls) (lastOrientation tracked_process)
           else map (\<lambda>(src, ts). inverseQuat (quatOfArray (headTrackerPose src (sint ts)))) ?calls)"
    and m: "lastOrientation s' = last (lastOrientation tracked_process # map orientation poses)"
    and e: "s' = tracked_process\<lparr> lastOrientation := lastOrientation s',
              trace := trace tracked_process @
                map (\<lambda>(src, ts). LogError (failure_message src)) ?calls \<rparr>"
    by blast
  have p': "map position poses = [(1 / 2, 0, 1 / 4), (1 / 2, 0, 1 / 4)]"
    using p by (simp add: camera_process_tracked(3) numeral_2_eq_2)
  have o': "map orientation poses =
           [\<lparr> qx = 0, qy = 0, qz = - 1, qw = 0 \<rparr>, \<lparr> qx = 0, qy = 0, qz = - 1, qw = 0 \<rparr>]"
    using o camera_process_tracked(5)
    by (simp add: sources_update_failed_def inverseQuat_def quatOfArray_def)
  have lp: "lastPosition s' = (1 / 2, 0, 1 / 4)"
    by (subst e) (simp add: camera_process_tracked(3))
  have lo: "lastOrientation s' = \<lparr> qx = 0, qy = 0, qz = - 1, qw = 0 \<rparr>"
    unfolding m o' by simp
  have tr: "trace s' = trace tracked_process @
           [LogError ''getPose: ArSession_update failed, using last position'',
            LogError ''getPose: ArSession_update failed, using last position'']"
    by (subst e) (simp add: fm)
  from r p' o' lp lo tr f camera_process_tracked(4) show ?thesis by simp
qed

subsection \<open>Barometric override and the position cache\<close>

lemma getAltitudeFromBarometer_cong:
  "floorAltitude s' = floorAltitude s \<Longrightarrow> currentPressure s' = currentPressure s \<Longrightarrow>
   getAltitudeFromBarometer s' = getAltitudeFromBarometer s"
  by (simp add: getAltitudeFromBarometer_def)

lemma getPose_camera_baro:
  assumes "useBarometerAltitudeTracking s"
  shows "position (fst (getPose_camera src pose s)) =
           (arRawPose src ! 4, getAltitudeFromBarometer s, arRawPose src ! 6)"
    and "lastPosition (snd (getPose_camera src pose s)) =
           (arRawPose src ! 4, arRawPose src ! 5, arRawPose src ! 6)"
    and "snd (getPose_camera src pose s) =
           s\<lparr> lastOrientation := lastOrientation (snd (getPose_camera src pose s)),
              lastPosition := (arRawPose src ! 4, arRawPose src ! 5, arRawPose src ! 6) \<rparr>"
  using assms
  by (simp_all add: getPose_camera_def Let_def split_beta getAltitudeFromBarometer_def)

lemma getPose_success_stepE:
  assumes "cameraTrackingActive s" "eglCurrentContext src" "tracking_success src"
    "useBarometerAltitudeTracking s"
  obtains pose s' where
    "getPose src ts s = (Inr pose, s')"
    "position pose = (arRawPose src ! 4, getAltitudeFromBarometer s, arRawPose src ! 6)"
    "lastPosition s' = (arRawPose src ! 4, arRawPose src ! 5, arRawPose src ! 6)"
    "cameraTrackingActive s'"
proof -
  define h where "h = getPose_headTracker src ts zeroPose s"
  have hs: "arcoreEnabled (snd h) = arcoreEnabled s" "arSession (snd h) = arSession s"
    "useBarometerAltitudeTracking (snd h) = useBarometerAltitudeTracking s"
    "floorAltitude (snd h) = floorAltitude s" "currentPressure (snd h) = currentPressure s"
    by (simp_all add: h_def getPose_headTracker_fields)
  define c where "c = getPose_camera src (fst h) (snd h)"
  have ub: "useBarometerAltitudeTracking (snd h)" using assms(4) hs by simp
  have g: "getPose src ts s = (Inr (fst c), snd c)"
    using assms(1-3) hs
    by (simp add: getPose_def h_def [symmetric] c_def [symmetric] split_beta
        cameraTrackingActive_def tracking_success_def getPose_out_def)
  have p: "position (fst c) = (arRawPose src ! 4, getAltitudeFromBarometer s, arRawPose src ! 6)"
    unfolding c_def getPose_camera_baro(1) [OF ub]
    using getAltitudeFromBarometer_cong [OF hs(4) hs(5)] by simp
  have l: "lastPosition (snd c) = (arRawPose src ! 4, arRawPose src ! 5, arRawPose src ! 6)"
    unfolding c_def by (rule getPose_camera_baro(2) [OF ub])
  have "arcoreEnabled (snd c) = arcoreEnabled (snd h) \<and> arSession (snd c) = arSession (snd h)"
    unfolding c_def by (subst (1 2) getPose_camera_baro(3) [OF ub]) simp
  then have a: "cameraTrackingActive (snd c)"
    using assms(1) hs by (simp add: cameraTrackingActive_def)
  show thesis by (rule that [OF g p l a])
qed

lemma calibrated_process_fields:
  "cameraTrackingActive calibrated_process"
  "useBarometerAltitudeTracking calibrated_process"
  "getAltitudeFromBarometer calibrated_process = 0"
  by (simp_all add: calibrated_process_def onSensorEvent_def pressureSample_def Let_def
      camera_process_fields cameraTrackingActive_def getAltitudeFromBarometer_def)

lemma sources_facts:
  "eglCurrentContext sources_tracking" "tracking_success sources_tracking"
  "eglCurrentContext sources_update_failed" "tracking_failure sources_update_failed"
  "arRawPose sources_tracking ! 4 = 1 / 2" "arRawPose sources_tracking ! 5 = 0"
  "arRawPose sources_tracking ! 6 = 1 / 4"
  by (simp_all add: sources_tracking_def sources_update_failed_def tracking_success_def
      tracking_failure_def AR_SUCCESS_def)

text \<open>
  C10, as the claim states it, fails where the camera's vertical coordinate equals the
  barometric altitude. Right after the floor calibration (one pressure sample, so the
  barometric altitude is 0) a camera pose at height 0 is read with success; the tracking
  failure of the next call then returns the same vertical position as the successful call
  did, not a different one.
\<close>

theorem getPose_fallback_same_height:
  "pose_y (projr (fst (getPose sources_tracking 0 calibrated_process))) = 0
   \<and> \<not> isl (fst (getPose sources_tracking 0 calibrated_process))
   \<and> pose_y (projr (fst (getPose sources_update_failed 1
                (snd (getPose sources_tracking 0 calibrated_process))))) = 0
   \<and> \<not> isl (fst (getPose sources_update_failed 1
                  (snd (getPose sources_tracking 0 calibrated_process))))"
proof -
  from getPose_success_stepE [OF calibrated_process_fields(1) sources_facts(1,2)
      calibrated_process_fields(2), of 0]
  obtain pose1 s1 where
    g1: "getPose sources_tracking 0 calibrated_process = (Inr pose1, s1)"
    and p1: "position pose1 = (arRawPose sources_tracking ! 4,
               getAltitudeFromBarometer calibrated_process, arRawPose sources_tracking ! 6)"
    and l1: "lastPosition s1 = (arRawPose sources_tracking ! 4, arRawPose sources_tracking ! 5,
               arRawPose sources_tracking ! 6)"
    and a1: "cameraTrackingActive s1"
    by blast
  from getPose_failure_stepE [OF a1 sources_facts(3,4), of 1] obtain s2 where
    g2: "getPose sources_update_failed 1 s1 =
           (Inr \<lparr> orientation = lastOrientation s2, position = lastPosition s1 \<rparr>, s2)"
    by blast
  show ?thesis
    by (simp add: g1 g2 p1 l1 pose_y_def calibrated_process_fields(3) sources_facts)
qed

text \<open>
  C10, amended. For every successful camera read with barometer altitude correction
  enabled, the vertical component of the pose returned is the barometric altitude while
  the position cache keeps the camera's three coordinates; a tracking failure on the next
  call therefore returns the camera's vertical coordinate of the successful read, which
  differs from the vertical position the successful call returned exactly when the
  camera's vertical coordinate differs from the barometric altitude.
\<close>

theorem getPose_barometer_not_cached:
  assumes "cameraTrackingActive s" "useBarometerAltitudeTracking s"
    and "eglCurrentContext src1" "tracking_success src1"
    and "eglCurrentContext src2" "tracking_failure src2"
  shows "\<exists>pose1 s1 pose2 s2.
           getPose src1 ts1 s = (Inr pose1, s1) \<and> getPose src2 ts2 s1 = (Inr pose2, s2)
         \<and> pose_y pose1 = getAltitudeFromBarometer s
         \<and> lastPosition s1 = (arRawPose src1 ! 4, arRawPose src1 ! 5, arRawPose src1 ! 6)
         \<and> position pose2 = (arRawPose src1 ! 4, arRawPose src1 ! 5, arRawPose src1 ! 6)
         \<and> (pose_y pose2 \<noteq> pose_y pose1 \<longleftrightarrow> arRawPose src1 ! 5 \<noteq> getAltitudeFromBarometer s)"
proof -
  from getPose_success_stepE [OF assms(1,3,4,2), of ts1] obtain pose1 s1 where
    g1: "getPose src1 ts1 s = (Inr pose1, s1)"
    and p1: "position pose1 =
               (arRawPose src1 ! 4, getAltitudeFromBarometer s, arRawPose src1 ! 6)"
    and l1: "lastPosition s1 = (arRawPose src1 ! 4, arRawPose src1 ! 5, arRawPose src1 ! 6)"
    and a1: "cameraTrackingActive s1"
    by blast
  from getPose_failure_stepE [OF a1 assms(5,6), of ts2] obtain s2 where
    g2: "getPose src2 ts2 s1 =
           (Inr \<lparr> orientation = lastOrientation s2, position = lastPosition s1 \<rparr>, s2)"
    by blast
  show ?thesis
    using g1 g2 p1 l1 by (auto simp add: pose_y_def)
qed

theorem getPose_barometer_not_cached_witness:
  "cameraTrackingActive camera_process \<and> useBarometerAltitudeTracking camera_process
   \<and> eglCurrentContext sources_tracking \<and> tracking_success sources_tracking
   \<and> eglCurrentContext sources_update_failed \<and> tracking_failure sources_update_failed
   \<and> (\<exists>pose1 s1 pose2 s2.
         getPose sources_tracking 0 camera_process = (Inr pose1, s1)
       \<and> getPose sources_update_failed 1 s1 = (Inr pose2, s2)
       \<and> pose_y pose1 = 44330
       \<and> lastPosition s1 = (1 / 2, 0, 1 / 4)
       \<and> position pose2 = (1 / 2, 0, 1 / 4)
       \<and> pose_y pose2 \<noteq> pose_y pose1)"
proof -
  have b: "getAltitudeFromBarometer camera_process = 44330"
    by (simp add: getAltitudeFromBarometer_def camera_process_fields pressureToAltitude_def
        SEA_LEVEL_PRESSURE_def)
  from getPose_barometer_not_cached [OF camera_process_fields(9,6) sources_facts(1,2,3,4),
      of 0 1]
  obtain pose1 s1 pose2 s2 where
    "getPose sources_tracking 0 camera_process = (Inr pose1, s1)"
    "getPose sources_update_failed 1 s1 = (Inr pose2, s2)"
    "pose_y pose1 = getAltitudeFromBarometer camera_process"
    "lastPosition s1 = (arRawPose sources_tracking ! 4, arRawPose sources_tracking ! 5,
       arRawPose sources_tracking ! 6)"
    "position pose2 = (arRawPose sources_tracking ! 4, arRawPose sources_tracking ! 5,
       arRawPose sources_tracking ! 6)"
    "pose_y pose2 \<noteq> pose_y pose1 \<longleftrightarrow>
       arRawPose sources_tracking ! 5 \<noteq> getAltitudeFromBarometer camera_process"
    by blast
  then have "getPose sources_tracking 0 camera_process = (Inr pose1, s1)
       \<and> getPose sources_update_failed 1 s1 = (Inr pose2, s2)
       \<and> pose_y pose1 = 44330
       \<and> lastPosition s1 = (1 / 2, 0, 1 / 4)
       \<and> position pose2 = (1 / 2, 0, 1 / 4)
       \<and> pose_y pose2 \<noteq> pose_y pose1"
    by (simp add: b sources_facts)
  then show ?thesis
    using camera_process_fields(9,6) sources_facts(1,2,3,4) by blast
qed

subsection \<open>Per-eye view parameters\<close>

lemma getPose_frame:
  "snd (getPose src ts s) =
     s\<lparr> lastOrientation := lastOrientation (snd (getPose src ts s)),
        lastPosition := lastPosition (snd (getPose src ts s)),
        trace := trace (snd (getPose src ts s)) \<rparr>"
  by (simp add: getPose_def getPose_headTracker_def getPose_camera_def Let_def split_beta
      emit_def)

lemma getPose_eyeOffsets: "eyeOffsets (snd (getPose src ts s)) = eyeOffsets s"
  by (subst getPose_frame) simp

text \<open>The rotation the code computes is the rotation by the quaternion, whenever the
  quaternion is a unit quaternion.\<close>

lemma quatVecMultiply_rotates:
  assumes "quatNorm2 q = 1"
  shows "quatVecMultiply q v = rotate_unit q v"
proof -
  obtain v0 v1 v2 where v: "v = (v0, v1, v2)" by (cases v)
  obtain a b c d where q: "q = \<lparr> qx = a, qy = b, qz = c, qw = d \<rparr>" by (cases q) simp
  from assms have n: "a * a + b * b + c * c + d * d = 1" by (simp add: q quatNorm2_def)
  have e0: "v0 = (a * a + b * b + c * c + d * d) * v0" using n by simp
  have e1: "v1 = (a * a + b * b + c * c + d * d) * v1" using n by simp
  have e2: "v2 = (a * a + b * b + c * c + d * d) * v2" using n by simp
  show ?thesis
    unfolding v q quatVecMultiply_def rotate_unit_def quatMul_def inverseQuat_def Let_def
    apply simp
    apply (intro conjI)
      apply (subst (1) e0, simp add: algebra_simps)
     apply (subst (1) e1, simp add: algebra_simps)
    apply (subst (1) e2, simp add: algebra_simps)
    done
qed

lemma offsetPosWithQuat_spec:
  "offsetPosWithQuat q offset headPos = eyePos_spec quatVecMultiply headPos q offset FLOOR_HEIGHT"
  by (simp add: offsetPosWithQuat_def eyePos_spec_def split_beta)

lemma offsetPosWithQuat_identity:
  "offsetPosWithQuat identityQuat (a, 0, 0) (0, 0, 0) = (- a, 3 / 2, 0)"
  by (simp add: offsetPosWithQuat_def quatVecMultiply_def identityQuat_def FLOOR_HEIGHT_def)

lemma offsetPosWithQuat_example:
  "offsetPosWithQuat identityQuat (0.03, 0, 0) (0, 0, 0) = (- 0.03, 1.5, 0)"
  by (simp add: offsetPosWithQuat_identity)

lemma updateViewConfigs_viewParams:
  assumes "getPose src (if ts = 0 then now else ts) s = (Inr headPose, s1)"
  shows "fst (updateViewConfigs src now ts s) = Inr ()"
    and "vp_pose (fst (viewParams (snd (updateViewConfigs src now ts s)))) =
           \<lparr> orientation = orientation headPose,
             position = offsetPosWithQuat (orientation headPose) (fst (eyeOffsets s), 0, 0)
                          (position headPose) \<rparr>"
    and "vp_pose (snd (viewParams (snd (updateViewConfigs src now ts s)))) =
           \<lparr> orientation = orientation headPose,
             position = offsetPosWithQuat (orientation headPose) (snd (eyeOffsets s), 0, 0)
                          (position headPose) \<rparr>"
    and "dm_pose (deviceMotion (snd (updateViewConfigs src now ts s))) = headPose"
proof -
  have e: "eyeOffsets s1 = eyeOffsets s"
    using getPose_eyeOffsets [of src "if ts = 0 then now else ts" s] assms by simp
  show "fst (updateViewConfigs src now ts s) = Inr ()"
    using assms by (simp add: updateViewConfigs_def Let_def)
  show "vp_pose (fst (viewParams (snd (updateViewConfigs src now ts s)))) =
           \<lparr> orientation = orientation headPose,
             position = offsetPosWithQuat (orientation headPose) (fst (eyeOffsets s), 0, 0)
                          (position headPose) \<rparr>"
    using assms e by (simp add: updateViewConfigs_def Let_def)
  show "vp_pose (snd (viewParams (snd (updateViewConfigs src now ts s)))) =
           \<lparr> orientation = orientation headPose,
             position = offsetPosWithQuat (orientation headPose) (snd (eyeOffsets s), 0, 0)
                          (position headPose) \<rparr>"
    using assms e by (simp add: updateViewConfigs_def Let_def)
  show "dm_pose (deviceMotion (snd (updateViewConfigs src now ts s))) = headPose"
    using assms by (simp add: updateViewConfigs_def Let_def)
qed

lemma offsetPosWithQuat_rotates:
  "quatNorm2 q = 1 \<Longrightarrow>
   offsetPosWithQuat q offset headPos = eyePos_spec rotate_unit headPos q offset FLOOR_HEIGHT"
  by (simp add: offsetPosWithQuat_spec quatVecMultiply_rotates eyePos_spec_def)

lemma turnedQuat_unit: "quatNorm2 turnedQuat = 1"
  by (simp add: quatNorm2_def turnedQuat_def)

lemma rotate_unit_turned:
  "rotate_unit turnedQuat (a, 0, 0) = (a * 7 / 25, a * 24 / 25, 0)"
  by (simp add: rotate_unit_def quatMul_def inverseQuat_def turnedQuat_def Let_def algebra_simps)

lemma eyePos_turned:
  "eyePos_spec rotate_unit (x, y, z) turnedQuat (a, 0, 0) FLOOR_HEIGHT =
     (x - a * 7 / 25, y - a * 24 / 25 + 3 / 2, z)"
  by (simp add: eyePos_spec_def rotate_unit_turned FLOOR_HEIGHT_def)

lemma lobby_process_getPose_turned:
  "getPose sources_turned ts lobby_process =
     (Inr \<lparr> orientation = turnedQuat, position = (0, 0, 0) \<rparr>,
      lobby_process\<lparr> lastOrientation := turnedQuat \<rparr>)"
  by (simp add: getPose_def getPose_headTracker_def lobby_process_def initial_process_def
      sources_turned_def getPose_out_def inverseQuat_def zeroPose_def turnedQuat_def Let_def)

text \<open>
  C5. For every head pose and eye offset, the eye position computed is the head position
  minus the eye offset rotated by the head orientation, with the floor height constant
  (1.5) added to the vertical component. The rotation is the one the code computes; for
  every normalised orientation (the invariant of a pose) that is the rotation of the
  offset by the quaternion, \<open>q v q\<^sup>-\<^sup>1\<close>. With the identity orientation, head position
  zero and eye offset (0.03, 0, 0) the eye position is (-0.03, 1.5, 0). In the view
  parameters that \<^verbatim>\<open>updateViewConfigs\<close> stores for the two eyes, the position is that eye
  position for the eye's offset and the orientation is the head orientation.
\<close>

theorem viewParams_eye_pose:
  "(quatNorm2 q = 1 \<longrightarrow>
      offsetPosWithQuat q offset headPos = eyePos_spec rotate_unit headPos q offset FLOOR_HEIGHT)
   \<and> offsetPosWithQuat q offset headPos =
       eyePos_spec quatVecMultiply headPos q offset FLOOR_HEIGHT
   \<and> FLOOR_HEIGHT = 1.5
   \<and> offsetPosWithQuat identityQuat (0.03, 0, 0) (0, 0, 0) = (- 0.03, 1.5, 0)
   \<and> (getPose src (if ts = 0 then now else ts) s = (Inr headPose, s1) \<longrightarrow>
        fst (updateViewConfigs src now ts s) = Inr ()
      \<and> vp_pose (fst (viewParams (snd (updateViewConfigs src now ts s)))) =
          \<lparr> orientation = orientation headPose,
            position = eyePos_spec quatVecMultiply (position headPose) (orientation headPose)
                         (fst (eyeOffsets s), 0, 0) FLOOR_HEIGHT \<rparr>
      \<and> vp_pose (snd (viewParams (snd (updateViewConfigs src now ts s)))) =
          \<lparr> orientation = orientation headPose,
            position = eyePos_spec quatVecMultiply (position headPose) (orientation headPose)
                         (snd (eyeOffsets s), 0, 0) FLOOR_HEIGHT \<rparr>
      \<and> (quatNorm2 (orientation headPose) = 1 \<longrightarrow>
            vp_pose (fst (viewParams (snd (updateViewConfigs src now ts s)))) =
              \<lparr> orientation = orientation headPose,
                position = eyePos_spec rotate_unit (position headPose) (orientation headPose)
                             (fst (eyeOffsets s), 0, 0) FLOOR_HEIGHT \<rparr>
          \<and> vp_pose (snd (viewParams (snd (updateViewConfigs src now ts s)))) =
              \<lparr> orientation = orientation headPose,
                position = eyePos_spec rotate_unit (position headPose) (orientation headPose)
                             (snd (eyeOffsets s), 0, 0) FLOOR_HEIGHT \<rparr>))"
proof (intro conjI impI)
  assume "quatNorm2 q = 1"
  then show "offsetPosWithQuat q offset headPos =
               eyePos_spec rotate_unit headPos q offset FLOOR_HEIGHT"
    by (rule offsetPosWithQuat_rotates)
next
  show "offsetPosWithQuat q offset headPos =
          eyePos_spec quatVecMultiply headPos q offset FLOOR_HEIGHT"
    by (rule offsetPosWithQuat_spec)
  show "FLOOR_HEIGHT = 1.5"
    by (simp add: FLOOR_HEIGHT_def)
  show "offsetPosWithQuat identityQuat (0.03, 0, 0) (0, 0, 0) = (- 0.03, 1.5, 0)"
    by (rule offsetPosWithQuat_example)
next
  assume g: "getPose src (if ts = 0 then now else ts) s = (Inr headPose, s1)"
  show "fst (updateViewConfigs src now ts s) = Inr ()"
    by (rule updateViewConfigs_viewParams(1) [OF g])
  show "vp_pose (fst (viewParams (snd (updateViewConfigs src now ts s)))) =
          \<lparr> orientation = orientation headPose,
            position = eyePos_spec quatVecMultiply (position headPose) (orientation headPose)
                         (fst (eyeOffsets s), 0, 0) FLOOR_HEIGHT \<rparr>"
    unfolding offsetPosWithQuat_spec [symmetric]
    by (rule updateViewConfigs_viewParams(2) [OF g])
  show "vp_pose (snd (viewParams (snd (updateViewConfigs src now ts s)))) =
          \<lparr> orientation = orientation headPose,
            position = eyePos_spec quatVecMultiply (position headPose) (orientation headPose)
                         (snd (eyeOffsets s), 0, 0) FLOOR_HEIGHT \<rparr>"
    unfolding offsetPosWithQuat_spec [symmetric]
    by (rule updateViewConfigs_viewParams(3) [OF g])
next
  assume g: "getPose src (if ts = 0 then now else ts) s = (Inr headPose, s1)"
    and u: "quatNorm2 (orientation headPose) = 1"
  show "vp_pose (fst (viewParams (snd (updateViewConfigs src now ts s)))) =
          \<lparr> orientation = orientation headPose,
            position = eyePos_spec rotate_unit (position headPose) (orientation headPose)
                         (fst (eyeOffsets s), 0, 0) FLOOR_HEIGHT \<rparr>"
    unfolding offsetPosWithQuat_rotates [OF u, symmetric]
    by (rule updateViewConfigs_viewParams(2) [OF g])
  show "vp_pose (snd (viewParams (snd (updateViewConfigs src now ts s)))) =
          \<lparr> orientation = orientation headPose,
            position = eyePos_spec rotate_unit (position headPose) (orientation headPose)
                         (snd (eyeOffsets s), 0, 0) FLOOR_HEIGHT \<rparr>"
    unfolding offsetPosWithQuat_rotates [OF u, symmetric]
    by (rule updateViewConfigs_viewParams(3) [OF g])
qed

lemma lobby_process_getPose:
  "getPose sources_tracking ts lobby_process =
     (Inr \<lparr> orientation = identityQuat, position = (0, 0, 0) \<rparr>,
      lobby_process\<lparr> lastOrientation := identityQuat \<rparr>)"
  by (simp add: getPose_def getPose_headTracker_def lobby_process_def initial_process_def
      sources_tracking_def getPose_out_def inverseQuat_def zeroPose_def identityQuat_def Let_def)

theorem viewParams_eye_pose_witness:
  "quatNorm2 turnedQuat = 1
   \<and> offsetPosWithQuat turnedQuat (0.03, 0, 0) (1, 2, 3) = (0.9916, 3.4712, 3)
   \<and> eyePos_spec rotate_unit (1, 2, 3) turnedQuat (0.03, 0, 0) FLOOR_HEIGHT = (0.9916, 3.4712, 3)
   \<and> getPose sources_turned (if (7 :: 64 word) = 0 then 9 else 7) lobby_process =
       (Inr \<lparr> orientation = turnedQuat, position = (0, 0, 0) \<rparr>,
        lobby_process\<lparr> lastOrientation := turnedQuat \<rparr>)
   \<and> fst (updateViewConfigs sources_turned 9 7 lobby_process) = Inr ()
   \<and> vp_pose (fst (viewParams (snd (updateViewConfigs sources_turned 9 7 lobby_process)))) =
       \<lparr> orientation = turnedQuat, position = (- 0.0084, 1.4712, 0) \<rparr>
   \<and> vp_pose (snd (viewParams (snd (updateViewConfigs sources_turned 9 7 lobby_process)))) =
       \<lparr> orientation = turnedQuat, position = (0.0084, 1.5288, 0) \<rparr>"
proof -
  have g: "getPose sources_turned (if (7 :: 64 word) = 0 then 9 else 7) lobby_process =
     (Inr \<lparr> orientation = turnedQuat, position = (0, 0, 0) \<rparr>,
      lobby_process\<lparr> lastOrientation := turnedQuat \<rparr>)"
    by (rule lobby_process_getPose_turned)
  have e: "eyeOffsets lobby_process = (0.03, - 0.03)"
    by (simp add: lobby_process_def)
  note t = viewParams_eye_pose [of turnedQuat "(0.03, 0, 0)" "(1, 2, 3)" sources_turned 7 9
      lobby_process "\<lparr> orientation = turnedQuat, position = (0, 0, 0) \<rparr>"
      "lobby_process\<lparr> lastOrientation := turnedQuat \<rparr>", unfolded AlvrPose.select_convs]
  from t turnedQuat_unit
  have a: "offsetPosWithQuat turnedQuat (0.03, 0, 0) (1, 2, 3) =
             eyePos_spec rotate_unit (1, 2, 3) turnedQuat (0.03, 0, 0) FLOOR_HEIGHT"
    by blast
  from t g turnedQuat_unit
  have b: "fst (updateViewConfigs sources_turned 9 7 lobby_process) = Inr ()
      \<and> vp_pose (fst (viewParams (snd (updateViewConfigs sources_turned 9 7 lobby_process)))) =
          \<lparr> orientation = turnedQuat,
            position = eyePos_spec rotate_unit (0, 0, 0) turnedQuat
                         (fst (eyeOffsets lobby_process), 0, 0) FLOOR_HEIGHT \<rparr>
      \<and> vp_pose (snd (viewParams (snd (updateViewConfigs sources_turned 9 7 lobby_process)))) =
          \<lparr> orientation = turnedQuat,
            position = eyePos_spec rotate_unit (0, 0, 0) turnedQuat
                         (snd (eyeOffsets lobby_process), 0, 0) FLOOR_HEIGHT \<rparr>"
    by blast
  show ?thesis
    using a b g turnedQuat_unit by (simp add: e eyePos_turned)
qed

subsection \<open>Lobby render tick\<close>

lemma lobby_viewInput_pose: "vi_pose (lobby_viewInput pose eyeOffset fov) = pose"
  by (simp add: lobby_viewInput_def Let_def)

text \<open>
  C4. In the lobby branch of the render tick the per-eye loop computes the offset eye
  position into the view input and then overwrites the whole pose of the view input with
  the head pose: the pose handed to the lobby renderer for each eye is the head pose
  itself, whatever the eye offset. With identity orientation, head position zero and eye
  offsets of 0.03 and -0.03, both eyes get position (0, 0, 0), where the rule of
  \<^verbatim>\<open>offsetPosWithQuat\<close> gives (-0.03, 1.5, 0) for the left eye.
\<close>

theorem lobby_view_pose_is_head_pose:
  "vi_pose (lobby_viewInput pose eyeOffset fov) = pose
   \<and> trace (snd (render_frame lobby_inputs lobby_process)) =
       [RenderLobbyOpenGl
          (\<lparr> vi_pose = \<lparr> orientation = identityQuat, position = (0, 0, 0) \<rparr>,
             vi_fov = getFov (1, 1, 1, 1), swapchain_index = 0 \<rparr>,
           \<lparr> vi_pose = \<lparr> orientation = identityQuat, position = (0, 0, 0) \<rparr>,
             vi_fov = getFov (1, 1, 1, 1), swapchain_index = 0 \<rparr>),
        RenderEyeToDisplay LobbyTextures]
   \<and> offsetPosWithQuat identityQuat (fst (eyeOffsets lobby_process), 0, 0) (0, 0, 0) =
       (- 0.03, 1.5, 0)"
proof -
  have s: "\<not> streaming lobby_process" "trace lobby_process = []"
    "eyeOffsets lobby_process = (0.03, - 0.03)"
    by (simp_all add: lobby_process_def initial_process_def)
  have i: "poseSources lobby_inputs = sources_tracking"
    "lensFieldOfView lobby_inputs = ((1, 1, 1, 1), (1, 1, 1, 1))"
    by (simp_all add: lobby_inputs_def)
  have "trace (snd (render_frame lobby_inputs lobby_process)) =
       [RenderLobbyOpenGl
          (\<lparr> vi_pose = \<lparr> orientation = identityQuat, position = (0, 0, 0) \<rparr>,
             vi_fov = getFov (1, 1, 1, 1), swapchain_index = 0 \<rparr>,
           \<lparr> vi_pose = \<lparr> orientation = identityQuat, position = (0, 0, 0) \<rparr>,
             vi_fov = getFov (1, 1, 1, 1), swapchain_index = 0 \<rparr>),
        RenderEyeToDisplay LobbyTextures]"
    by (simp add: render_frame_def s i lobby_process_getPose Let_def emit_def
        lobby_viewInput_def zeroViewInput_def)
  then show ?thesis
    by (simp add: lobby_viewInput_pose s offsetPosWithQuat_identity)
qed

subsection \<open>Tracking dispatch\<close>

lemma dispatch_interval_ns_value: "dispatch_interval_ns = 5555555"
  by (simp add: dispatch_interval_ns_def)

lemma sleep_deadlines_append:
  "sleep_deadlines (es @ fs) = sleep_deadlines es @ sleep_deadlines fs"
  by (induction es rule: sleep_deadlines.induct) simp_all

lemma getPose_sleep_deadlines:
  "sleep_deadlines (trace (snd (getPose src ts s))) = sleep_deadlines (trace s)"
  by (simp add: getPose_def getPose_headTracker_def getPose_camera_def Let_def split_beta
      emit_def sleep_deadlines_append)

lemma updateViewConfigs_trace:
  "trace (snd (updateViewConfigs src now ts s)) =
     trace (snd (getPose src (if ts = 0 then now else ts) s))"
  by (simp add: updateViewConfigs_def Let_def split: prod.splits sum.splits)

lemma updateViewConfigs_sleep_deadlines:
  "sleep_deadlines (trace (snd (updateViewConfigs src now ts s))) = sleep_deadlines (trace s)"
  by (simp add: updateViewConfigs_trace getPose_sleep_deadlines)

lemma upt_Suc_shift: "map f [0..<Suc m] = f 0 # map (\<lambda>k. f (Suc k)) [0..<m]"
  by (simp add: upt_conv_Cons map_Suc_upt [symmetric] del: upt_Suc)

lemma inputThread_loop_deadlines:
  "\<exists>m \<le> length ticks.
      fst (snd (inputThread_loop ticks d s)) = d + of_nat m * dispatch_interval_ns
    \<and> sleep_deadlines (trace (snd (snd (inputThread_loop ticks d s)))) =
        sleep_deadlines (trace s) @ map (\<lambda>n. d + of_nat (Suc n) * dispatch_interval_ns) [0..<m]
    \<and> (fst (inputThread_loop ticks d s) = ThreadRunning \<longrightarrow> m = length ticks)"
proof (induction ticks arbitrary: d s)
  case Nil
  show ?case by simp
next
  case (Cons tick ticks)
  show ?case
  proof (cases "streamingSeen tick")
    case False
    then show ?thesis by (intro exI [of _ 0]) simp
  next
    case True
    obtain r s1 where
      u: "updateViewConfigs (tickSources tick) (tickTargetNs tick) (tickTargetNs tick) s = (r, s1)"
      by (cases "updateViewConfigs (tickSources tick) (tickTargetNs tick) (tickTargetNs tick) s")
    have sd: "sleep_deadlines (trace s1) = sleep_deadlines (trace s)"
      using updateViewConfigs_sleep_deadlines
        [of "tickSources tick" "tickTargetNs tick" "tickTargetNs tick" s] u
      by simp
    show ?thesis
    proof (cases r)
      case (Inl e)
      with True u sd show ?thesis by (intro exI [of _ 0]) simp
    next
      case (Inr x)
      define s3 where "s3 = emit (SleepUntil (d + dispatch_interval_ns))
          (emit (SendTracking (tickTargetNs tick) (viewParams s1) (deviceMotion s1)) s1)"
      have l: "inputThread_loop (tick # ticks) d s =
                 inputThread_loop ticks (d + dispatch_interval_ns) s3"
        using True u Inr by (simp add: s3_def Let_def)
      have sd3: "sleep_deadlines (trace s3) =
                   sleep_deadlines (trace s) @ [d + dispatch_interval_ns]"
        by (simp add: s3_def emit_def sleep_deadlines_append sd)
      from Cons.IH [of "d + dispatch_interval_ns" s3] obtain m where
        m: "m \<le> length ticks"
        and a: "fst (snd (inputThread_loop ticks (d + dispatch_interval_ns) s3)) =
                  d + dispatch_interval_ns + of_nat m * dispatch_interval_ns"
        and b: "sleep_deadlines
                  (trace (snd (snd (inputThread_loop ticks (d + dispatch_interval_ns) s3)))) =
                  sleep_deadlines (trace s3) @
                  map (\<lambda>n. d + dispatch_interval_ns + of_nat (Suc n) * dispatch_interval_ns)
                    [0..<m]"
        and c: "fst (inputThread_loop ticks (d + dispatch_interval_ns) s3) = ThreadRunning
                  \<longrightarrow> m = length ticks"
        by blast
      have "Suc m \<le> length (tick # ticks)" using m by simp
      moreover have "fst (snd (inputThread_loop (tick # ticks) d s)) =
                       d + of_nat (Suc m) * dispatch_interval_ns"
        unfolding l a by (simp add: algebra_simps)
      moreover have "sleep_deadlines (trace (snd (snd (inputThread_loop (tick # ticks) d s)))) =
        sleep_deadlines (trace s) @
        map (\<lambda>n. d + of_nat (Suc n) * dispatch_interval_ns) [0..<Suc m]"
        unfolding l b sd3 upt_Suc_shift by (simp add: algebra_simps)
      moreover have "fst (inputThread_loop (tick # ticks) d s) = ThreadRunning
                       \<longrightarrow> Suc m = length (tick # ticks)"
        unfolding l using c by simp
      ultimately show ?thesis by blast
    qed
  qed
qed

lemma sint_no_wrap:
  fixes d :: "64 word"
  assumes "sint d + int n * 5555555 < 2 ^ 63"
  shows "sint (d + of_nat n * 5555555) = sint d + int n * 5555555"
proof -
  have "d + of_nat n * 5555555 = word_of_int (sint d + int n * 5555555)"
    by simp
  moreover have "- (2 ^ 63) \<le> sint d + int n * 5555555"
    using sint_ge [of d] by simp
  ultimately show ?thesis
    using assms by (simp only: sint_sbintrunc' signed_take_bit_int_eq_self_iff) simp
qed

lemma updateViewConfigs_no_camera:
  assumes "\<not> arcoreEnabled s"
  shows "fst (updateViewConfigs src now ts s) = Inr ()"
    and "\<not> arcoreEnabled (snd (updateViewConfigs src now ts s))"
proof -
  define t where "t = (if ts = 0 then now else ts)"
  have a': "\<not> arcoreEnabled (snd (getPose src t s))"
    using assms by (subst getPose_frame) simp
  have "\<not> (cameraTrackingActive s \<and> \<not> eglCurrentContext src)"
    using assms by (simp add: cameraTrackingActive_def)
  from getPose_returns [OF this, of t] obtain pose where "fst (getPose src t s) = Inr pose"
    by blast
  then obtain s1 where g: "getPose src t s = (Inr pose, s1)"
    by (cases "getPose src t s") simp
  from a' g have a: "\<not> arcoreEnabled s1" by simp
  show "fst (updateViewConfigs src now ts s) = Inr ()"
    using g by (simp add: updateViewConfigs_def t_def [symmetric] Let_def)
  show "\<not> arcoreEnabled (snd (updateViewConfigs src now ts s))"
    using g a by (simp add: updateViewConfigs_def t_def [symmetric] Let_def)
qed

lemma inputThread_loop_running:
  assumes "\<not> arcoreEnabled s" "list_all streamingSeen ticks"
  shows "fst (inputThread_loop ticks d s) = ThreadRunning"
  using assms
proof (induction ticks arbitrary: d s)
  case Nil
  show ?case by simp
next
  case (Cons tick ticks)
  let ?u = "updateViewConfigs (tickSources tick) (tickTargetNs tick) (tickTargetNs tick) s"
  have r: "fst ?u = Inr ()" and a: "\<not> arcoreEnabled (snd ?u)"
    using updateViewConfigs_no_camera [OF Cons.prems(1)] by simp_all
  from r have u: "?u = (Inr (), snd ?u)" by (cases ?u) simp
  have "fst (inputThread_loop ticks (d + dispatch_interval_ns)
          (emit (SleepUntil (d + dispatch_interval_ns))
            (emit (SendTracking (tickTargetNs tick) (viewParams (snd ?u)) (deviceMotion (snd ?u)))
               (snd ?u)))) = ThreadRunning"
    using Cons.prems(2) a by (intro Cons.IH) (simp_all add: emit_def)
  then show ?case
    using Cons.prems(2) by (subst inputThread_loop.simps, subst u) (simp add: Let_def)
qed

lemma process_90Hz_fields:
  "\<not> arcoreEnabled process_90Hz"
  "trace process_90Hz = [AlvrInitialize 1200 1080 90]"
  by (simp_all add: process_90Hz_def initializeNative_def initialize_arcore_def
      initialize_barometer_def init_env_ok_def initial_process_def emit_def c_div2_def Let_def)

lemma run_90Hz:
  "inputThread_run egl_ok 1000 [dispatch_tick, dispatch_tick] process_90Hz =
     inputThread_loop [dispatch_tick, dispatch_tick] 1000 process_90Hz"
  by (simp add: inputThread_run_def inputThread_egl_def process_90Hz_fields)

lemma run_90Hz_running:
  "fst (inputThread_loop [dispatch_tick, dispatch_tick] 1000 process_90Hz) = ThreadRunning"
  by (rule inputThread_loop_running) (simp_all add: process_90Hz_fields dispatch_tick_def)

text \<open>
  C6, as the claim states it, fails: the interval is not derived from the refresh rate
  supplied at initialisation. After \<^verbatim>\<open>initializeNative\<close> for a 90 Hz display the deadlines
  of the tracking thread are 5555555 ns apart, not one third of the 90 Hz refresh period
  (3703703.7 ns).
\<close>

theorem dispatch_interval_ignores_refresh_rate:
  "trace process_90Hz = [AlvrInitialize 1200 1080 90]
   \<and> sleep_deadlines (trace (snd (snd
        (inputThread_run egl_ok 1000 [dispatch_tick, dispatch_tick] process_90Hz)))) =
       [1000 + 5555555, 1000 + 5555555 + 5555555]
   \<and> (5555555 :: real) \<noteq> dispatch_interval_spec 90"
proof -
  from inputThread_loop_deadlines [of "[dispatch_tick, dispatch_tick]" 1000 process_90Hz]
  obtain m where
    b: "sleep_deadlines (trace (snd (snd
          (inputThread_loop [dispatch_tick, dispatch_tick] 1000 process_90Hz)))) =
        sleep_deadlines (trace process_90Hz) @
        map (\<lambda>n. 1000 + of_nat (Suc n) * dispatch_interval_ns) [0..<m]"
    and c: "fst (inputThread_loop [dispatch_tick, dispatch_tick] 1000 process_90Hz) =
              ThreadRunning \<longrightarrow> m = length [dispatch_tick, dispatch_tick]"
    by blast
  from c run_90Hz_running have m: "m = 2" by simp
  have u: "[0..<2] = [0, Suc 0]" by (simp add: numeral_2_eq_2)
  have "sleep_deadlines (trace (snd (snd
          (inputThread_loop [dispatch_tick, dispatch_tick] 1000 process_90Hz)))) =
       [1000 + 5555555, 1000 + 5555555 + 5555555]"
    unfolding b m u by (simp add: process_90Hz_fields dispatch_interval_ns_value)
  then show ?thesis
    by (simp add: run_90Hz process_90Hz_fields dispatch_interval_spec_def)
qed

text \<open>
  C6, amended. For every run of the tracking loop, the deadlines are computed by
  accumulation from the initial deadline (the clock's reading at the start of the thread)
  and are exactly interval-spaced: after \<open>m\<close> completed iterations the deadline is the
  initial one plus \<open>m\<close> intervals, and the \<open>n\<close>-th deadline slept until is the initial one
  plus \<open>n\<close> intervals; a run that is still going has completed every iteration observed.
  This holds in the 64-bit arithmetic of the clock, and as integers as long as the sum
  stays below \<open>2\<^sup>6\<^sup>3\<close> nanoseconds. The interval is the constant 5555555 ns, one third
  of the period of a 60 Hz display cut to whole nanoseconds; it does not depend on the
  refresh rate supplied at initialisation.
\<close>

theorem dispatch_deadlines_accumulate:
  "dispatch_interval_ns = 5555555
   \<and> (\<exists>m \<le> length ticks.
        fst (snd (inputThread_loop ticks deadline0 s)) =
          deadline0 + of_nat m * dispatch_interval_ns
      \<and> sleep_deadlines (trace (snd (snd (inputThread_loop ticks deadline0 s)))) =
          sleep_deadlines (trace s) @
          map (\<lambda>n. deadline0 + of_nat (Suc n) * dispatch_interval_ns) [0..<m]
      \<and> (fst (inputThread_loop ticks deadline0 s) = ThreadRunning \<longrightarrow> m = length ticks))
   \<and> (sint deadline0 + int n * 5555555 < 2 ^ 63 \<longrightarrow>
        sint (deadline0 + of_nat n * dispatch_interval_ns) = sint deadline0 + int n * 5555555)"
  using inputThread_loop_deadlines [of ticks deadline0 s] sint_no_wrap [of deadline0 n]
  by (simp add: dispatch_interval_ns_value)

theorem dispatch_deadlines_accumulate_witness:
  "fst (inputThread_loop [dispatch_tick, dispatch_tick] 1000 process_90Hz) = ThreadRunning
   \<and> fst (snd (inputThread_loop [dispatch_tick, dispatch_tick] 1000 process_90Hz)) = 11112110
   \<and> sint (1000 :: 64 word) + int 2 * 5555555 < 2 ^ 63
   \<and> sint ((1000 :: 64 word) + of_nat 2 * dispatch_interval_ns) = 11112110"
proof -
  from dispatch_deadlines_accumulate [of "[dispatch_tick, dispatch_tick]" 1000 process_90Hz 2]
  obtain m where
    a: "fst (snd (inputThread_loop [dispatch_tick, dispatch_tick] 1000 process_90Hz)) =
          1000 + of_nat m * dispatch_interval_ns"
    and c: "fst (inputThread_loop [dispatch_tick, dispatch_tick] 1000 process_90Hz) =
              ThreadRunning \<longrightarrow> m = length [dispatch_tick, dispatch_tick]"
    and w: "sint (1000 :: 64 word) + int 2 * 5555555 < 2 ^ 63 \<longrightarrow>
              sint ((1000 :: 64 word) + of_nat 2 * dispatch_interval_ns) =
              sint (1000 :: 64 word) + int 2 * 5555555"
    by blast
  from c run_90Hz_running have m: "m = 2" by simp
  have "fst (snd (inputThread_loop [dispatch_tick, dispatch_tick] 1000 process_90Hz)) = 11112110"
    unfolding a m by (simp add: dispatch_interval_ns_value)
  moreover have "sint (1000 :: 64 word) + int 2 * 5555555 < 2 ^ 63" by simp
  moreover from this w have "sint ((1000 :: 64 word) + of_nat 2 * dispatch_interval_ns) = 11112110"
    by simp
  ultimately show ?thesis using run_90Hz_running by blast
qed

subsection \<open>Stream start\<close>












lemma streamConfig_foveation_eq:
  "streamConfig_foveation settings rc s =
     (foveation_result settings rc, s\<lparr> trace := trace s @ foveation_logs settings \<rparr>)"
  unfolding streamConfig_foveation_def foveation_result_def foveation_logs_def
    foveation_setting_def
  by (simp split: sum.split add: emit_def Let_def del: json_path.simps)

lemma foveation_logs_are_logs: "list_all is_log (foveation_logs settings)"
  unfolding foveation_logs_def
  by (simp split: sum.split del: json_path.simps)



lemma foveation_result_off:
  "foveation_off settings \<Longrightarrow> foveation_result settings rc = Inr rc"
  unfolding foveation_off_def foveation_result_def
  by (auto split: sum.splits)





subsection \<open>Geometry triggers and the texture rebuild\<close>

lemma lobby_allocs_append: "lobby_allocs (es @ fs) = lobby_allocs es + lobby_allocs fs"
  by (simp add: lobby_allocs_def)

lemma lobby_allocs_logs: "list_all is_log es \<Longrightarrow> lobby_allocs es = 0"
  by (induction es) (auto simp add: lobby_allocs_def)

lemma getPose_geometry: "geometry (snd (getPose src ts s)) = geometry s"
proof -
  have "lobby_allocs (trace (snd (getPose src ts s))) = lobby_allocs (trace s)"
    by (simp add: getPose_def getPose_headTracker_def getPose_camera_def Let_def split_beta
      emit_def lobby_allocs_append) (simp add: lobby_allocs_def)
  moreover have "renderingParamsChanged (snd (getPose src ts s)) = renderingParamsChanged s"
    "glContextRecreated (snd (getPose src ts s)) = glContextRecreated s"
    by (subst getPose_frame, simp)+
  ultimately show ?thesis by (simp add: geometry_def)
qed

lemma on_streaming_started_geometry:
  "geometry (snd (on_streaming_started inp w h parsed s)) = geometry s"
proof (cases parsed)
  case None
  then show ?thesis
    by (simp add: on_streaming_started_def geometry_def emit_def Let_def lobby_allocs_def)
next
  case (Some settings)
  have l: "lobby_allocs (foveation_logs settings) = 0"
    by (rule lobby_allocs_logs) (rule foveation_logs_are_logs)
  then have l': "filter (\<lambda>e. e = GlGenTextures LobbyTextures) (foveation_logs settings) = []"
    by (simp add: lobby_allocs_def)
  show ?thesis
    unfolding Some on_streaming_started_def streamConfig_foveation_eq geometry_def
    by (simp add: emit_def Let_def lobby_allocs_def l' split: sum.split)
qed

lemma on_streaming_stopped_geometry:
  "geometry (snd (on_streaming_stopped s)) = geometry s"
  by (simp add: on_streaming_stopped_def geometry_def emit_def Let_def lobby_allocs_def)

lemma handle_event_geometry:
  "geometry (snd (handle_event inp event s)) = geometry s"
proof (cases event)
  case (ALVR_EVENT_HUD_MESSAGE_UPDATED message)
  then show ?thesis
    by (simp add: on_hud_message_def geometry_def emit_def Let_def lobby_allocs_def)
next
  case (ALVR_EVENT_STREAMING_STARTED w h parsed)
  then show ?thesis by (simp add: on_streaming_started_geometry)
next
  case ALVR_EVENT_STREAMING_STOPPED
  then show ?thesis by (simp add: on_streaming_stopped_geometry)
next
  case ALVR_EVENT_OTHER
  then show ?thesis by simp
qed

lemma poll_events_geometry:
  "geometry (snd (poll_events inp events s)) = geometry s"
proof (induction events arbitrary: s)
  case Nil
  show ?case by simp
next
  case (Cons event events)
  obtain r s1 where h: "handle_event inp event s = (r, s1)"
    by (cases "handle_event inp event s")
  have g: "geometry s1 = geometry s"
    using handle_event_geometry [of inp event s] h by simp
  show ?case
  proof (cases r)
    case (Inl e)
    with h g show ?thesis by simp
  next
    case (Inr u)
    with h g Cons.IH [of s1] show ?thesis by simp
  qed
qed

lemma render_frame_geometry:
  "geometry (snd (render_frame inp s)) = geometry s"
proof (cases "streaming s")
  case True
  then show ?thesis
    by (simp add: render_frame_def geometry_def emit_def Let_def lobby_allocs_def)
next
  case False
  obtain r s1 where g: "getPose (poseSources inp) (bootTimeNano inp + VSYNC_QUEUE_INTERVAL_NS) s = (r, s1)"
    by (cases "getPose (poseSources inp) (bootTimeNano inp + VSYNC_QUEUE_INTERVAL_NS) s")
  have "geometry s1 = geometry s"
    using getPose_geometry [of "poseSources inp" "bootTimeNano inp + VSYNC_QUEUE_INTERVAL_NS" s] g
    by simp
  then show ?thesis
    using False g
    by (cases r) (simp_all add: render_frame_def geometry_def emit_def Let_def lobby_allocs_append,
        simp_all add: lobby_allocs_def)
qed


lemma render_newParams_geometry:
  "geometry (snd (render_newParams inp s)) = geometry s"
  by (simp add: render_newParams_def geometry_def emit_def Let_def lobby_allocs_def)

lemma render_newParams_flag:
  "fst (render_newParams inp s) = (\<not> (renderingParamsChanged s \<and> savedDeviceParamsSize inp = 0))"
  by (simp add: render_newParams_def Let_def)

lemma render_lobbyTextures_geometry:
  "geometry (render_lobbyTextures s) =
     (False, False,
      lobby_allocs (trace s) + (if renderingParamsChanged s \<or> glContextRecreated s then 1 else 0))"
  by (simp add: render_lobbyTextures_def geometry_def emit_def Let_def lobby_allocs_def)

lemma renderNative_try_geometry:
  "geometry (snd (renderNative_try inp s)) =
     (if renderingParamsChanged s \<and> savedDeviceParamsSize inp = 0 then geometry s
      else (False, False,
            lobby_allocs (trace s) + (if renderingParamsChanged s \<or> glContextRecreated s then 1 else 0)))"
proof -
  obtain b s1 where n: "render_newParams inp s = (b, s1)"
    by (cases "render_newParams inp s")
  have g1: "geometry s1 = geometry s"
    using render_newParams_geometry [of inp s] n by simp
  have b: "b = (\<not> (renderingParamsChanged s \<and> savedDeviceParamsSize inp = 0))"
    using render_newParams_flag [of inp s] n by simp
  show ?thesis
  proof (cases b)
    case False
    with n g1 b show ?thesis by (simp add: renderNative_try_def)
  next
    case True
    obtain r s2 where p: "poll_events inp (polledEvents inp) (render_lobbyTextures s1) = (r, s2)"
      by (cases "poll_events inp (polledEvents inp) (render_lobbyTextures s1)")
    have g2: "geometry s2 = geometry (render_lobbyTextures s1)"
      using poll_events_geometry [of inp "polledEvents inp" "render_lobbyTextures s1"] p by simp
    obtain r' s3 where f: "render_frame inp s2 = (r', s3)"
      by (cases "render_frame inp s2")
    have g3: "geometry s3 = geometry s2"
      using render_frame_geometry [of inp s2] f by simp
    have t: "geometry (render_lobbyTextures s1) = (False, False,
      lobby_allocs (trace s) + (if renderingParamsChanged s \<or> glContextRecreated s then 1 else 0))"
    proof -
      from g1 have e: "renderingParamsChanged s1 = renderingParamsChanged s"
        "glContextRecreated s1 = glContextRecreated s"
        "lobby_allocs (trace s1) = lobby_allocs (trace s)"
        by (simp_all add: geometry_def)
      show ?thesis by (simp only: render_lobbyTextures_geometry e)
    qed
    have "geometry (snd (renderNative_try inp s)) = geometry (render_lobbyTextures s1)"
      using n True p f g2 g3
      by (cases r; cases r') (simp_all add: renderNative_try_def)
    with t b True show ?thesis by auto
  qed
qed

lemma renderNative_geometry:
  "geometry (snd (renderNative inp s)) =
     (if renderingParamsChanged s \<and> savedDeviceParamsSize inp = 0 then geometry s
      else (False, False,
            lobby_allocs (trace s) + (if renderingParamsChanged s \<or> glContextRecreated s then 1 else 0)))"
proof -
  have "geometry (snd (renderNative inp s)) = geometry (snd (renderNative_try inp s))"
    by (simp add: renderNative_def geometry_def emit_def lobby_allocs_def
        split: prod.split sum.split error.split)
  then show ?thesis by (simp only: renderNative_try_geometry)
qed

subsection \<open>Outcomes of a stream start\<close>








lemma lobby_process_fields:
  "\<not> streaming lobby_process" "inputThread lobby_process = NotAThread"
  "inputThread lobby_process \<noteq> Joinable"
  "trace lobby_process = []" "\<not> renderingParamsChanged lobby_process"
  "\<not> glContextRecreated lobby_process"
  by (simp_all add: lobby_process_def initial_process_def)










subsection \<open>Idempotence of the geometry trigger\<close>

lemma setScreenResolutionNative_twice:
  "setScreenResolutionNative w h (setScreenResolutionNative w h s) = setScreenResolutionNative w h s"
  by (simp add: setScreenResolutionNative_def)

lemma setScreenRotationNative_twice:
  "setScreenRotationNative r (setScreenRotationNative r s) = setScreenRotationNative r s"
  by (simp add: setScreenRotationNative_def)

lemma setScreenResolutionNative_geometry:
  "geometry (setScreenResolutionNative w h s) = (True, glContextRecreated s, lobby_allocs (trace s))"
  by (simp add: setScreenResolutionNative_def geometry_def)

text \<open>
  C9, as the claim states it, fails when no device parameters are saved: the next render
  tick after the two triggers returns early, allocates no lobby textures and leaves the
  flag set.
\<close>

theorem geometry_trigger_deferred_without_calibration:
  "geometry (snd (renderNative uncalibrated_inputs
     (setScreenResolutionNative 2400 1080 (setScreenResolutionNative 2400 1080 lobby_process)))) =
     (True, False, 0)"
proof -
  have "savedDeviceParamsSize uncalibrated_inputs = 0"
    by (simp add: uncalibrated_inputs_def)
  moreover have "geometry
     (setScreenResolutionNative 2400 1080 (setScreenResolutionNative 2400 1080 lobby_process)) =
     (True, False, 0)"
    by (simp add: setScreenResolutionNative_def geometry_def lobby_process_fields lobby_allocs_def)
  ultimately show ?thesis
    by (simp add: renderNative_geometry) (simp add: geometry_def)
qed

text \<open>
  C9, amended. The geometry trigger is idempotent: triggering twice with the same
  parameters leaves the state the one trigger leaves, with the dirty flag set and nothing
  allocated. If device parameters are saved, the next render tick allocates the lobby
  texture pair exactly once and clears both dirty flags, and a tick after it allocates
  nothing more. If none are saved, the next tick allocates nothing and the flag stays set.
\<close>

theorem geometry_trigger_idempotent:
  "setScreenResolutionNative w h (setScreenResolutionNative w h s) =
     setScreenResolutionNative w h s
   \<and> setScreenRotationNative r (setScreenRotationNative r s) = setScreenRotationNative r s
   \<and> geometry (setScreenResolutionNative w h s) =
       (True, glContextRecreated s, lobby_allocs (trace s))
   \<and> (savedDeviceParamsSize inp \<noteq> 0 \<longrightarrow>
        geometry (snd (renderNative inp
          (setScreenResolutionNative w h (setScreenResolutionNative w h s)))) =
          (False, False, lobby_allocs (trace s) + 1)
      \<and> geometry (snd (renderNative inp' (snd (renderNative inp
          (setScreenResolutionNative w h (setScreenResolutionNative w h s)))))) =
          (False, False, lobby_allocs (trace s) + 1))
   \<and> (savedDeviceParamsSize inp = 0 \<longrightarrow>
        geometry (snd (renderNative inp
          (setScreenResolutionNative w h (setScreenResolutionNative w h s)))) =
          (True, glContextRecreated s, lobby_allocs (trace s)))"
proof -
  let ?s2 = "setScreenResolutionNative w h (setScreenResolutionNative w h s)"
  have g: "geometry ?s2 = (True, glContextRecreated s, lobby_allocs (trace s))"
    by (simp only: setScreenResolutionNative_twice setScreenResolutionNative_geometry)
  then have f: "renderingParamsChanged ?s2" "lobby_allocs (trace ?s2) = lobby_allocs (trace s)"
    "glContextRecreated ?s2 = glContextRecreated s"
    by (simp_all add: geometry_def)
  have t1: "savedDeviceParamsSize inp \<noteq> 0 \<longrightarrow>
      geometry (snd (renderNative inp ?s2)) = (False, False, lobby_allocs (trace s) + 1)"
    by (simp add: renderNative_geometry f)
  have t0: "savedDeviceParamsSize inp = 0 \<longrightarrow>
      geometry (snd (renderNative inp ?s2)) = (True, glContextRecreated s, lobby_allocs (trace s))"
    by (simp add: renderNative_geometry f g)
  have t2: "savedDeviceParamsSize inp \<noteq> 0 \<longrightarrow>
      geometry (snd (renderNative inp' (snd (renderNative inp ?s2)))) =
        (False, False, lobby_allocs (trace s) + 1)"
  proof
    assume "savedDeviceParamsSize inp \<noteq> 0"
    with t1 have "geometry (snd (renderNative inp ?s2)) = (False, False, lobby_allocs (trace s) + 1)"
      by simp
    then have "\<not> renderingParamsChanged (snd (renderNative inp ?s2))"
      "\<not> glContextRecreated (snd (renderNative inp ?s2))"
      "lobby_allocs (trace (snd (renderNative inp ?s2))) = lobby_allocs (trace s) + 1"
      by (simp_all add: geometry_def)
    then show "geometry (snd (renderNative inp' (snd (renderNative inp ?s2)))) =
        (False, False, lobby_allocs (trace s) + 1)"
      by (simp add: renderNative_geometry)
  qed
  show ?thesis
    using setScreenResolutionNative_twice [of w h s] setScreenRotationNative_twice [of r s]
      setScreenResolutionNative_geometry [of w h s] t0 t1 t2
    by blast
qed

theorem geometry_trigger_idempotent_witness:
  "savedDeviceParamsSize lobby_inputs \<noteq> 0
   \<and> geometry (snd (renderNative lobby_inputs
        (setScreenResolutionNative 2400 1080 (setScreenResolutionNative 2400 1080 lobby_process)))) =
       (False, False, 1)
   \<and> geometry (snd (renderNative lobby_inputs (snd (renderNative lobby_inputs
        (setScreenResolutionNative 2400 1080 (setScreenResolutionNative 2400 1080 lobby_process)))))) =
       (False, False, 1)
   \<and> savedDeviceParamsSize uncalibrated_inputs = 0
   \<and> geometry (snd (renderNative uncalibrated_inputs
        (setScreenResolutionNative 2400 1080 (setScreenResolutionNative 2400 1080 lobby_process)))) =
       (True, False, 0)"
proof -
  have a: "savedDeviceParamsSize lobby_inputs \<noteq> 0" "savedDeviceParamsSize uncalibrated_inputs = 0"
    by (simp_all add: lobby_inputs_def uncalibrated_inputs_def)
  have l: "lobby_allocs (trace lobby_process) = 0" "\<not> glContextRecreated lobby_process"
    by (simp_all add: lobby_process_fields lobby_allocs_def)
  let ?s2 = "setScreenResolutionNative 2400 1080
               (setScreenResolutionNative 2400 1080 lobby_process)"
  have t: "geometry (snd (renderNative lobby_inputs ?s2)) =
             (False, False, lobby_allocs (trace lobby_process) + 1)
           \<and> geometry (snd (renderNative lobby_inputs (snd (renderNative lobby_inputs ?s2)))) =
             (False, False, lobby_allocs (trace lobby_process) + 1)"
    using geometry_trigger_idempotent [of 2400 1080 lobby_process 0 lobby_inputs lobby_inputs]
      a(1)
    by blast
  have u: "geometry (snd (renderNative uncalibrated_inputs ?s2)) =
             (True, glContextRecreated lobby_process, lobby_allocs (trace lobby_process))"
    using geometry_trigger_idempotent
      [of 2400 1080 lobby_process 0 uncalibrated_inputs lobby_inputs] a(2)
    by blast
  from t u show ?thesis
    using a l by simp
qed

subsection \<open>Stream stop\<close>

lemma on_streaming_stopped_joinable:
  assumes "inputThread s = Joinable"
  shows "on_streaming_stopped s =
     (Inr (), s\<lparr> streaming := False, inputThread := NotAThread,
                 trace := trace s @
                   [LogInfo ''ALVR_EVENT_STREAMING_STOPPED, Waiting for inputThread to join'',
                    WriteStreaming False, JoinInputThread, GlDeleteTextures StreamTextures,
                    LogInfo ''ALVR_EVENT_STREAMING_STOPPED, Stream stopped deleted textures''] \<rparr>)"
  using assms by (simp add: on_streaming_stopped_def emit_def Let_def)

lemma render_frame_lobby:
  assumes "\<not> streaming s"
    and "getPose (poseSources inp) (bootTimeNano inp + VSYNC_QUEUE_INTERVAL_NS) s = (Inr pose, s1)"
  shows "trace (snd (render_frame inp s)) =
           trace s1 @
           [RenderLobbyOpenGl
              (lobby_viewInput pose (fst (eyeOffsets s1)) (getFov (fst (lensFieldOfView inp))),
               lobby_viewInput pose (snd (eyeOffsets s1)) (getFov (snd (lensFieldOfView inp)))),
            RenderEyeToDisplay LobbyTextures]"
  using assms by (simp add: render_frame_def emit_def Let_def)

lemma release_guarded_append:
  "release_guarded p (es @ fs) = (release_guarded p es \<and> release_guarded (last (p # es)) fs)"
  by (induction es arbitrary: p) auto

lemma release_guarded_logs: "list_all is_log es \<Longrightarrow> release_guarded p es"
  by (induction es arbitrary: p) auto

lemma getPose_guarded:
  "release_guarded p (trace s) \<Longrightarrow> release_guarded p (trace (snd (getPose src ts s)))"
  by (simp add: getPose_def getPose_headTracker_def getPose_camera_def Let_def split_beta
      emit_def release_guarded_append)

lemma on_streaming_started_guarded:
  assumes "release_guarded p (trace s)"
  shows "release_guarded p (trace (snd (on_streaming_started inp w h parsed s)))"
proof (cases parsed)
  case None
  with assms show ?thesis
    by (simp add: on_streaming_started_def emit_def Let_def release_guarded_append)
next
  case (Some settings)
  have l: "release_guarded q (foveation_logs settings)" for q
    by (rule release_guarded_logs) (rule foveation_logs_are_logs)
  show ?thesis
    using assms unfolding Some on_streaming_started_def streamConfig_foveation_eq
    by (simp add: emit_def Let_def release_guarded_append l split: sum.split)
qed

lemma on_streaming_stopped_guarded:
  "release_guarded p (trace s) \<Longrightarrow> release_guarded p (trace (snd (on_streaming_stopped s)))"
  by (simp add: on_streaming_stopped_def emit_def Let_def release_guarded_append)

lemma handle_event_guarded:
  assumes "release_guarded p (trace s)"
  shows "release_guarded p (trace (snd (handle_event inp event s)))"
proof (cases event)
  case (ALVR_EVENT_HUD_MESSAGE_UPDATED message)
  with assms show ?thesis
    by (simp add: on_hud_message_def emit_def Let_def release_guarded_append)
next
  case (ALVR_EVENT_STREAMING_STARTED w h parsed)
  with assms show ?thesis by (simp add: on_streaming_started_guarded)
next
  case ALVR_EVENT_STREAMING_STOPPED
  with assms show ?thesis by (simp add: on_streaming_stopped_guarded)
next
  case ALVR_EVENT_OTHER
  with assms show ?thesis by simp
qed

lemma poll_events_guarded:
  "release_guarded p (trace s) \<Longrightarrow> release_guarded p (trace (snd (poll_events inp events s)))"
proof (induction events arbitrary: s)
  case Nil
  then show ?case by simp
next
  case (Cons event events)
  obtain r s1 where h: "handle_event inp event s = (r, s1)"
    by (cases "handle_event inp event s")
  have g: "release_guarded p (trace s1)"
    using handle_event_guarded [OF Cons.prems, of inp event] h by simp
  show ?case
  proof (cases r)
    case (Inl e)
    with h g show ?thesis by simp
  next
    case (Inr u)
    with h Cons.IH [OF g] show ?thesis by simp
  qed
qed

lemma render_frame_guarded:
  assumes "release_guarded p (trace s)"
  shows "release_guarded p (trace (snd (render_frame inp s)))"
proof (cases "streaming s")
  case True
  with assms show ?thesis
    by (simp add: render_frame_def emit_def Let_def release_guarded_append)
next
  case False
  obtain r s1 where g: "getPose (poseSources inp) (bootTimeNano inp + VSYNC_QUEUE_INTERVAL_NS) s = (r, s1)"
    by (cases "getPose (poseSources inp) (bootTimeNano inp + VSYNC_QUEUE_INTERVAL_NS) s")
  have "release_guarded p (trace s1)"
    using getPose_guarded [OF assms, of "poseSources inp" "bootTimeNano inp + VSYNC_QUEUE_INTERVAL_NS"] g
    by simp
  then show ?thesis
    using False g
    by (cases r) (simp_all add: render_frame_def emit_def Let_def release_guarded_append)
qed

lemma render_newParams_guarded:
  "release_guarded p (trace s) \<Longrightarrow> release_guarded p (trace (snd (render_newParams inp s)))"
  by (simp add: render_newParams_def emit_def Let_def release_guarded_append)

lemma render_lobbyTextures_guarded:
  "release_guarded p (trace s) \<Longrightarrow> release_guarded p (trace (render_lobbyTextures s))"
  by (simp add: render_lobbyTextures_def emit_def Let_def release_guarded_append)

lemma renderNative_try_guarded:
  assumes "release_guarded p (trace s)"
  shows "release_guarded p (trace (snd (renderNative_try inp s)))"
proof -
  obtain b s1 where n: "render_newParams inp s = (b, s1)"
    by (cases "render_newParams inp s")
  have g1: "release_guarded p (trace s1)"
    using render_newParams_guarded [OF assms, of inp] n by simp
  show ?thesis
  proof (cases b)
    case False
    with n g1 show ?thesis by (simp add: renderNative_try_def)
  next
    case True
    obtain r s2 where q: "poll_events inp (polledEvents inp) (render_lobbyTextures s1) = (r, s2)"
      by (cases "poll_events inp (polledEvents inp) (render_lobbyTextures s1)")
    have g2: "release_guarded p (trace s2)"
      using poll_events_guarded [OF render_lobbyTextures_guarded [OF g1], of inp "polledEvents inp"] q
      by simp
    obtain r' s3 where f: "render_frame inp s2 = (r', s3)"
      by (cases "render_frame inp s2")
    have g3: "release_guarded p (trace s3)"
      using render_frame_guarded [OF g2, of inp] f by simp
    show ?thesis
      using n True q f g2 g3
      by (cases r; cases r') (simp_all add: renderNative_try_def)
  qed
qed

lemma renderNative_guarded:
  assumes "release_guarded p (trace s)"
  shows "release_guarded p (trace (snd (renderNative inp s)))"
proof -
  obtain r s1 where t: "renderNative_try inp s = (r, s1)"
    by (cases "renderNative_try inp s")
  have g: "release_guarded p (trace s1)"
    using renderNative_try_guarded [OF assms, of inp] t by simp
  show ?thesis
    using t g
    by (simp add: renderNative_def emit_def release_guarded_append split: sum.split error.split)
qed

text \<open>
  C7. On every stream-stop event received while streaming (flag set, tracking thread
  started), the handler writes the streaming flag to false, joins the tracking thread,
  and only then deletes the stream textures, in this order and with nothing in between;
  it leaves the state not streaming with no thread attached. A tracking thread that
  reads the flag as the handler wrote it leaves its loop at that test, so the join
  returns. The render path that follows is the lobby's: a render of the resulting state
  draws the lobby textures. No render tick releases the stream textures in any other way:
  in the trace of every tick, each release of the stream textures comes directly after a
  join of the tracking thread.
\<close>

theorem streaming_stopped_joins_before_release:
  assumes "streaming s" "inputThread s = Joinable"
  shows "handle_event inp ALVR_EVENT_STREAMING_STOPPED s =
     (Inr (), s\<lparr> streaming := False, inputThread := NotAThread,
                 trace := trace s @
                   [LogInfo ''ALVR_EVENT_STREAMING_STOPPED, Waiting for inputThread to join'',
                    WriteStreaming False, JoinInputThread, GlDeleteTextures StreamTextures,
                    LogInfo ''ALVR_EVENT_STREAMING_STOPPED, Stream stopped deleted textures''] \<rparr>)
   \<and> inputThread_loop
        (tick\<lparr> streamingSeen :=
                  streaming (snd (handle_event inp ALVR_EVENT_STREAMING_STOPPED s)) \<rparr> # ticks)
        deadline p = (ThreadExited, deadline, p)
   \<and> (getPose (poseSources inp') (bootTimeNano inp' + VSYNC_QUEUE_INTERVAL_NS)
          (snd (handle_event inp ALVR_EVENT_STREAMING_STOPPED s)) = (Inr pose, s1) \<longrightarrow>
        last (trace (snd (render_frame inp'
                (snd (handle_event inp ALVR_EVENT_STREAMING_STOPPED s))))) =
          RenderEyeToDisplay LobbyTextures)
   \<and> (release_guarded prev (trace s0) \<longrightarrow>
        release_guarded prev (trace (snd (renderNative inp0 s0))))"
proof -
  let ?s' = "s\<lparr> streaming := False, inputThread := NotAThread,
                 trace := trace s @
                   [LogInfo ''ALVR_EVENT_STREAMING_STOPPED, Waiting for inputThread to join'',
                    WriteStreaming False, JoinInputThread, GlDeleteTextures StreamTextures,
                    LogInfo ''ALVR_EVENT_STREAMING_STOPPED, Stream stopped deleted textures''] \<rparr>"
  have h: "handle_event inp ALVR_EVENT_STREAMING_STOPPED s = (Inr (), ?s')"
    using on_streaming_stopped_joinable [OF assms(2)] by simp
  have n: "\<not> streaming ?s'" by simp
  have l: "inputThread_loop (tick\<lparr> streamingSeen := streaming ?s' \<rparr> # ticks) deadline p =
             (ThreadExited, deadline, p)"
    by simp
  have r: "getPose (poseSources inp') (bootTimeNano inp' + VSYNC_QUEUE_INTERVAL_NS) ?s' =
             (Inr pose, s1) \<longrightarrow>
           last (trace (snd (render_frame inp' ?s'))) = RenderEyeToDisplay LobbyTextures"
    using render_frame_lobby [OF n, of inp' pose s1] by simp
  have g: "release_guarded prev (trace s0) \<longrightarrow>
        release_guarded prev (trace (snd (renderNative inp0 s0)))"
    using renderNative_guarded [of prev s0 inp0] by blast
  show ?thesis
    unfolding h snd_conv using l r g by blast
qed

lemma streaming_process_fields:
  "streaming streaming_process" "inputThread streaming_process = Joinable"
  "trace streaming_process = []"
  by (simp_all add: streaming_process_def lobby_process_def initial_process_def)

theorem streaming_stopped_joins_before_release_witness:
  "streaming streaming_process \<and> inputThread streaming_process = Joinable
   \<and> fst (handle_event lobby_inputs ALVR_EVENT_STREAMING_STOPPED streaming_process) = Inr ()
   \<and> trace (snd (handle_event lobby_inputs ALVR_EVENT_STREAMING_STOPPED streaming_process)) =
       [LogInfo ''ALVR_EVENT_STREAMING_STOPPED, Waiting for inputThread to join'',
        WriteStreaming False, JoinInputThread, GlDeleteTextures StreamTextures,
        LogInfo ''ALVR_EVENT_STREAMING_STOPPED, Stream stopped deleted textures'']
   \<and> \<not> streaming (snd (handle_event lobby_inputs ALVR_EVENT_STREAMING_STOPPED streaming_process))
   \<and> inputThread (snd (handle_event lobby_inputs ALVR_EVENT_STREAMING_STOPPED streaming_process)) =
       NotAThread
   \<and> release_guarded (LogInfo []) (trace streaming_process)
   \<and> release_guarded (LogInfo [])
        (trace (snd (renderNative
           (lobby_inputs\<lparr> polledEvents := [ALVR_EVENT_STREAMING_STOPPED] \<rparr>) streaming_process)))"
  using streaming_stopped_joins_before_release
    [OF streaming_process_fields(1,2), of lobby_inputs _ _ _ _ _ _ _ "LogInfo []" streaming_process
      "lobby_inputs\<lparr> polledEvents := [ALVR_EVENT_STREAMING_STOPPED] \<rparr>"]
  by (simp add: streaming_process_fields)

end
